theory Spec2Isabelle
  imports Complex_Main "HOL-Library.Sublist"
begin

section \<open>Python values and exceptions\<close>

text \<open>
  The values that travel through \<open>kong/client.py\<close>: keyword arguments, form fields,
  query parameters and decoded JSON bodies. A dictionary is kept as the list of its
  items, in the order \<open>items()\<close> yields them.
\<close>

datatype pyval =
    PNone
  | PBool bool
  | PInt int
  | PStr string
  | PList "pyval list"
  | PDict "(string \<times> pyval) list"

text \<open>
  The exceptions the client can raise. \<open>JSONDecodeError\<close> is what \<open>response.json()\<close>
  raises on a body that is not JSON; it is a subclass of \<open>ValueError\<close>.
  \<open>ValidationError\<close> is the failure of \<open>assert_dict_keys_in\<close>.
\<close>

datatype error =
    ConflictError string
  | ValueError string
  | JSONDecodeError
  | TypeError
  | AttributeError
  | ValidationError string

datatype exception_class = ConflictErrorClass | ValueErrorClass

definition construct :: "exception_class \<Rightarrow> string \<Rightarrow> error" where
  "construct cls msg = (case cls of ConflictErrorClass \<Rightarrow> ConflictError msg | ValueErrorClass \<Rightarrow> ValueError msg)"

text \<open>\<open>isinstance(e, ValueError)\<close>: the class itself and its subclass.\<close>

fun is_ValueError :: "error \<Rightarrow> bool" where
  "is_ValueError (ValueError m) = True"
| "is_ValueError JSONDecodeError = True"
| "is_ValueError e = False"

text \<open>Truth value of a Python object, as \<open>if x:\<close> and \<open>x or y\<close> test it.\<close>

fun truthy :: "pyval \<Rightarrow> bool" where
  "truthy PNone = False"
| "truthy (PBool b) = b"
| "truthy (PInt i) = (i \<noteq> 0)"
| "truthy (PStr s) = (s \<noteq> [])"
| "truthy (PList xs) = (xs \<noteq> [])"
| "truthy (PDict kvs) = (kvs \<noteq> [])"

definition py_or :: "pyval \<Rightarrow> pyval \<Rightarrow> pyval" where
  "py_or a b = (if truthy a then a else b)"

text \<open>\<open>len(x)\<close>: defined on strings, lists and dictionaries, a \<open>TypeError\<close> elsewhere.\<close>

fun py_len :: "pyval \<Rightarrow> error + nat" where
  "py_len (PStr s) = Inr (length s)"
| "py_len (PList xs) = Inr (length xs)"
| "py_len (PDict kvs) = Inr (length kvs)"
| "py_len v = Inl TypeError"

text \<open>
  \<open>d.get(key, default)\<close>: only a dictionary has the method; a decoded JSON body that is
  a list, a number or a string has no attribute \<open>get\<close>.
\<close>

fun py_get :: "pyval \<Rightarrow> string \<Rightarrow> pyval \<Rightarrow> error + pyval" where
  "py_get (PDict kvs) key dflt = Inr (case map_of kvs key of None \<Rightarrow> dflt | Some v \<Rightarrow> v)"
| "py_get v key dflt = Inl AttributeError"

text \<open>\<open>d.items()\<close>.\<close>

fun py_items :: "pyval \<Rightarrow> error + (string \<times> pyval) list" where
  "py_items (PDict kvs) = Inr kvs"
| "py_items v = Inl AttributeError"

text \<open>\<open>sep.join(xs)\<close>.\<close>

fun join :: "string \<Rightarrow> string list \<Rightarrow> string" where
  "join sep [] = []"
| "join sep [x] = x"
| "join sep (x # y # ys) = x @ sep @ join sep (y # ys)"

text \<open>\<open>'%s' % n\<close> for a status code: the decimal digits of a natural number.\<close>

definition digit :: "nat \<Rightarrow> char" where
  "digit d = char_of (48 + d)"

fun str_nat :: "nat \<Rightarrow> string" where
  "str_nat n = (if n < 10 then [digit n] else str_nat (n div 10) @ [digit (n mod 10)])"

declare str_nat.simps [simp del]

text \<open>
  What the model takes from the Python library rather than from this repository:
  the reference resolution of \<open>urljoin\<close> for a non-empty base and a non-empty reference,
  the percent-encoding of query strings, and the rendering of lists and dictionaries by
  \<open>str\<close> (which differs between Python versions).
\<close>

record pylib =
  resolve :: "string \<Rightarrow> string \<Rightarrow> string"
  quote :: "string \<Rightarrow> string"
  repr_container :: "pyval \<Rightarrow> string"

definition str_int :: "int \<Rightarrow> string" where
  "str_int i = (if i < 0 then ''-'' @ str_nat (nat (- i)) else str_nat (nat i))"

text \<open>\<open>'%s' % v\<close>, that is \<open>str(v)\<close>.\<close>

definition py_str :: "pylib \<Rightarrow> pyval \<Rightarrow> string" where
  "py_str lib v =
     (case v of
        PNone \<Rightarrow> ''None''
      | PBool b \<Rightarrow> (if b then ''True'' else ''False'')
      | PInt i \<Rightarrow> str_int i
      | PStr s \<Rightarrow> s
      | PList xs \<Rightarrow> repr_container lib v
      | PDict kvs \<Rightarrow> repr_container lib v)"

text \<open>\<open>d[key] = value\<close> and \<open>d.update(other)\<close> on a dictionary kept as its items.\<close>

fun dict_set :: "('k \<times> 'v) list \<Rightarrow> 'k \<Rightarrow> 'v \<Rightarrow> ('k \<times> 'v) list" where
  "dict_set [] k v = [(k, v)]"
| "dict_set ((k', v') # kvs) k v = (if k' = k then (k, v) # kvs else (k', v') # dict_set kvs k v)"

definition dict_update :: "('k \<times> 'v) list \<Rightarrow> ('k \<times> 'v) list \<Rightarrow> ('k \<times> 'v) list" where
  "dict_update d other = fold (\<lambda>(k, v) acc. dict_set acc k v) other d"

section \<open>Status codes (\<open>kong/compat.py\<close>)\<close>

definition OK :: nat where "OK = 200"
definition CREATED :: nat where "CREATED = 201"
definition NO_CONTENT :: nat where "NO_CONTENT = 204"
definition NOT_FOUND :: nat where "NOT_FOUND = 404"
definition CONFLICT :: nat where "CONFLICT = 409"

section \<open>Responses\<close>

text \<open>
  What the client reads of a \<open>requests\<close> response: the status code, the body decoded by
  \<open>response.json()\<close> (\<open>None\<close> when the body is not JSON and the call raises), and the raw
  text of the body.
\<close>

record response =
  status_code :: nat
  json_body :: "pyval option"
  text_body :: string

definition response_json :: "response \<Rightarrow> error + pyval" where
  "response_json r = (case json_body r of None \<Rightarrow> Inl JSONDecodeError | Some v \<Rightarrow> Inr v)"

text \<open>\<open>str(response)\<close>: the library's \<open>'<Response [%s]>' % status_code\<close>.\<close>

definition response_str :: "response \<Rightarrow> string" where
  "response_str r = ''<Response ['' @ str_nat (status_code r) @ '']>''"

text \<open>
  The body of every \<open>count\<close> method after the GET:
  \<open>result = response.json(); amount = result.get('total', len(result.get('data')))\<close>.
  Python evaluates the arguments of the outer \<open>get\<close> before calling it, so
  \<open>len(result.get('data'))\<close> is computed whether or not \<open>total\<close> is present.
\<close>

definition count_result :: "response \<Rightarrow> error + pyval" where
  "count_result r =
     (case response_json r of
        Inl e \<Rightarrow> Inl e
      | Inr result \<Rightarrow>
          (case py_get result ''data'' PNone of
             Inl e \<Rightarrow> Inl e
           | Inr d \<Rightarrow>
               (case py_len d of
                  Inl e \<Rightarrow> Inl e
                | Inr n \<Rightarrow> py_get result ''total'' (PInt (int n)))))"

section \<open>Configuration and the REST client (\<open>RestClient\<close>)\<close>

text \<open>The two module-level settings, read once from the environment.\<close>

record config =
  KONG_MINIMUM_REQUEST_INTERVAL :: real
  KONG_REUSE_CONNECTIONS :: bool

definition get_default_kong_headers :: "config \<Rightarrow> (string \<times> string) list" where
  "get_default_kong_headers cfg =
     (let headers = [] in
      if \<not> KONG_REUSE_CONNECTIONS cfg then dict_update headers [(''Connection'', ''close'')] else headers)"

record rest_client =
  api_url :: string
  headers :: "(string \<times> string) list"

definition get_headers :: "'a rest_client_scheme \<Rightarrow> (string \<times> string) list \<Rightarrow> (string \<times> string) list" where
  "get_headers self hs = (let result = []; result = dict_update result (headers self) in dict_update result hs)"

text \<open>
  \<open>urljoin(base, url)\<close> of the standard library: it returns the base when the reference
  is empty and the reference when the base is empty, and resolves the reference against
  the base otherwise.
\<close>

definition urljoin :: "pylib \<Rightarrow> string \<Rightarrow> string \<Rightarrow> string" where
  "urljoin lib base url = (if url = [] then base else if base = [] then url else resolve lib base url)"

text \<open>
  The part of a URL before its query string, and the rest (empty, or starting at the
  first \<open>?\<close>).
\<close>

definition url_path_part :: "string \<Rightarrow> string" where
  "url_path_part url = takeWhile (\<lambda>c. c \<noteq> CHR ''?'') url"

definition url_query_part :: "string \<Rightarrow> string" where
  "url_query_part url = dropWhile (\<lambda>c. c \<noteq> CHR ''?'') url"

text \<open>
  Modelled from the spec: \<open>ensure_trailing_slash\<close> of \<open>kong/utils.py\<close>, which is not part
  of the sources at hand. The spec has the path of the URL always end in a single
  trailing slash, and no slash duplicated on a URL that is already slashed: whatever
  slashes end the part before the query string are replaced by one.
\<close>

definition ensure_trailing_slash :: "string \<Rightarrow> string" where
  "ensure_trailing_slash url =
     rev (dropWhile (\<lambda>c. c = CHR ''/'') (rev (url_path_part url))) @ ''/'' @ url_query_part url"

text \<open>
  Modelled from the spec: \<open>add_url_params\<close> of \<open>kong/utils.py\<close>, which is not part of the
  sources at hand. The spec has the query parameters appended after the path, entries
  whose value is \<open>None\<close> omitted and all others URL-encoded, the trailing slash left alone.
  They follow a \<open>?\<close>, or a \<open>&\<close> when the URL already carries a query string.
\<close>

definition add_url_params :: "pylib \<Rightarrow> string \<Rightarrow> (string \<times> pyval) list \<Rightarrow> string" where
  "add_url_params lib url params =
     (let present = filter (\<lambda>(k, v). v \<noteq> PNone) params in
      if present = [] then url
      else url @ (if CHR ''?'' \<in> set url then ''&'' else ''?'') @
           join ''&'' (map (\<lambda>(k, v). quote lib k @ ''='' @ quote lib (py_str lib v)) present))"

definition get_url :: "pylib \<Rightarrow> 'a rest_client_scheme \<Rightarrow> string list \<Rightarrow> (string \<times> pyval) list \<Rightarrow> string" where
  "get_url lib self path query_params =
     (let url = ensure_trailing_slash (urljoin lib (api_url self) (join ''/'' path))
      in add_url_params lib url query_params)"

text \<open>
  Modelled from the spec: \<open>assert_dict_keys_in\<close> of \<open>kong/utils.py\<close>, which is not part
  of the sources at hand. The spec has a field map with a key outside the whitelist fail
  fast with a validation error; the first offending key is reported.
\<close>

definition assert_dict_keys_in :: "(string \<times> pyval) list \<Rightarrow> string list \<Rightarrow> error option" where
  "assert_dict_keys_in d allowed =
     (case filter (\<lambda>key. key \<notin> set allowed) (map fst d) of
        [] \<Rightarrow> None
      | key # _ \<Rightarrow> Some (ValidationError key))"

section \<open>Requests and the backend\<close>

datatype http_method = GET | POST | PUT | PATCH | DELETE

record request =
  req_method :: http_method
  req_url :: string
  req_data :: "(string \<times> pyval) list"
  req_headers :: "(string \<times> string) list"

text \<open>
  The backend is a script: its answer to the n-th request the client sends. The state
  the operations thread is the log of the requests sent so far, so that
  \<open>self.session.post(url, data=..., headers=...)\<close> and its siblings append one request to
  the log and return the scripted answer. Failures of the transport itself (connection
  refused, timeouts) are not modelled.
\<close>

type_synonym server = "nat \<Rightarrow> response"

definition send :: "server \<Rightarrow> http_method \<Rightarrow> string \<Rightarrow> (string \<times> pyval) list \<Rightarrow> (string \<times> string) list \<Rightarrow>
    request list \<Rightarrow> response \<times> request list" where
  "send srv m url d hs sent =
     (srv (length sent), sent @ [\<lparr>req_method = m, req_url = url, req_data = d, req_headers = hs\<rparr>])"

section \<open>Response classification\<close>

text \<open>
  \<open>raise_response_error(response, exception_class=None, is_json=True)\<close>: the exception
  that leaves the function. With \<open>is_json\<close> the body is decoded again and its items are
  rendered; the decoding or the \<open>items()\<close> call may raise instead.
\<close>

definition raise_response_error :: "pylib \<Rightarrow> response \<Rightarrow> exception_class option \<Rightarrow> bool \<Rightarrow> error" where
  "raise_response_error lib response exception_class is_json =
     (let exception_class = (case exception_class of None \<Rightarrow> ValueErrorClass | Some cls \<Rightarrow> cls) in
      if is_json then
        (case response_json response of
           Inl e \<Rightarrow> e
         | Inr body \<Rightarrow>
             (case py_items body of
                Inl e \<Rightarrow> e
              | Inr kvs \<Rightarrow>
                  construct exception_class
                    (join '', '' (map (\<lambda>(key, value). key @ '': '' @ py_str lib value) kvs))))
      else construct exception_class (response_str response))"

text \<open>
  The tail shared by \<open>add\<close> and every \<open>create\<close>:
  \<open>result = response.json()\<close>, then \<open>ConflictError\<close> on 409, \<open>ValueError\<close> on anything
  but 201, and \<open>result\<close> otherwise.
\<close>

definition check_created :: "pylib \<Rightarrow> response \<Rightarrow> error + pyval" where
  "check_created lib response =
     (case response_json response of
        Inl e \<Rightarrow> Inl e
      | Inr result \<Rightarrow>
          if status_code response = CONFLICT then
            Inl (raise_response_error lib response (Some ConflictErrorClass) True)
          else if status_code response \<noteq> CREATED then
            Inl (raise_response_error lib response (Some ValueErrorClass) True)
          else Inr result)"

text \<open>
  The tail shared by \<open>add_or_update\<close> and every \<open>create_or_update\<close>: as above, with
  \<open>status_code not in (CREATED, OK)\<close> as the failure test.
\<close>

definition check_created_or_ok :: "pylib \<Rightarrow> response \<Rightarrow> error + pyval" where
  "check_created_or_ok lib response =
     (case response_json response of
        Inl e \<Rightarrow> Inl e
      | Inr result \<Rightarrow>
          if status_code response = CONFLICT then
            Inl (raise_response_error lib response (Some ConflictErrorClass) True)
          else if status_code response \<notin> {CREATED, OK} then
            Inl (raise_response_error lib response (Some ValueErrorClass) True)
          else Inr result)"

text \<open>
  The tail shared by every \<open>update\<close>, \<open>retrieve\<close> and \<open>list\<close>:
  \<open>result = response.json()\<close>, then \<open>ValueError\<close> on anything but 200.
\<close>

definition check_ok :: "pylib \<Rightarrow> response \<Rightarrow> error + pyval" where
  "check_ok lib response =
     (case response_json response of
        Inl e \<Rightarrow> Inl e
      | Inr result \<Rightarrow>
          if status_code response \<noteq> OK then
            Inl (raise_response_error lib response (Some ValueErrorClass) True)
          else Inr result)"

text \<open>
  The tail of every \<open>delete\<close>: no body is read; 204 and 404 return \<open>None\<close>, any other
  status raises \<open>ValueError\<close> with the message the method builds from the status code.
\<close>

definition check_deleted :: "(nat \<Rightarrow> string) \<Rightarrow> response \<Rightarrow> error + pyval" where
  "check_deleted message response =
     (if status_code response \<notin> {NO_CONTENT, NOT_FOUND} then
        Inl (ValueError (message (status_code response)))
      else Inr PNone)"

section \<open>Retry (\<open>backoff.on_exception\<close>)\<close>

text \<open>
  \<open>@backoff.on_exception(backoff.expo, ValueError, max_tries=3)\<close>: the decorated function
  is called again while it raises a \<open>ValueError\<close>, until it has been tried \<open>max_tries\<close>
  times; the last exception is re-raised, and any other exception leaves at once.
  \<open>tries\<close> counts the attempts already made. The pause between attempts changes no
  state the operations read and is left out.
\<close>

function on_exception :: "nat \<Rightarrow> nat \<Rightarrow> ('s \<Rightarrow> (error + 'a) \<times> 's) \<Rightarrow> 's \<Rightarrow> (error + 'a) \<times> 's" where
  "on_exception max_tries tries target s =
     (let r = target s in
      if (case fst r of Inl e \<Rightarrow> is_ValueError e | Inr v \<Rightarrow> False) \<and> Suc tries < max_tries
      then on_exception max_tries (Suc tries) target (snd r)
      else r)"
  by pat_completeness auto
termination
  by (relation "measure (\<lambda>(max_tries, tries, target, s). max_tries - tries)") auto

declare on_exception.simps [simp del]

section \<open>The resource clients\<close>

text \<open>
  Nested clients carry the identifier of their parent, fixed when they are created.
\<close>

record plugin_configuration_client = rest_client +
  self_api_name_or_id :: string

record consumer_auth_client = rest_client +
  self_consumer_id :: string

definition is_bool :: "pyval \<Rightarrow> bool" where
  "is_bool v = (case v of PBool b \<Rightarrow> True | _ \<Rightarrow> False)"

text \<open>\<open>values = {}; for key in fields: values['value.%s' % key] = fields[key]\<close>.\<close>

definition prefix_values :: "(string \<times> pyval) list \<Rightarrow> (string \<times> pyval) list" where
  "prefix_values field_map = fold (\<lambda>(key, v) values. dict_set values (''value.'' @ key) v) field_map []"

subsection \<open>\<open>APIPluginConfigurationAdminClient\<close>\<close>

definition APIPluginConfigurationAdminClient :: "config \<Rightarrow> string \<Rightarrow> string \<Rightarrow> plugin_configuration_client" where
  "APIPluginConfigurationAdminClient cfg api_name_or_id url =
     \<lparr>api_url = url, headers = get_default_kong_headers cfg, self_api_name_or_id = api_name_or_id\<rparr>"

definition APIPluginConfigurationAdminClient_create ::
    "pylib \<Rightarrow> server \<Rightarrow> plugin_configuration_client \<Rightarrow> string \<Rightarrow> pyval \<Rightarrow> pyval \<Rightarrow> (string \<times> pyval) list \<Rightarrow>
     request list \<Rightarrow> (error + pyval) \<times> request list" where
  "APIPluginConfigurationAdminClient_create lib srv self plugin_name enabled consumer field_map sent =
     (let values = prefix_values field_map;
          d = dict_update [(''name'', PStr plugin_name), (''consumer_id'', consumer)] values;
          d = (if enabled \<noteq> PNone \<and> is_bool enabled then dict_set d ''enabled'' enabled else d);
          (response, sent') = send srv POST (get_url lib self [''apis'', self_api_name_or_id self, ''plugins''] [])
                                d (get_headers self []) sent
      in (check_created lib response, sent'))"

definition APIPluginConfigurationAdminClient_create_or_update ::
    "pylib \<Rightarrow> server \<Rightarrow> plugin_configuration_client \<Rightarrow> string \<Rightarrow> pyval \<Rightarrow> pyval \<Rightarrow> pyval \<Rightarrow>
     (string \<times> pyval) list \<Rightarrow> request list \<Rightarrow> (error + pyval) \<times> request list" where
  "APIPluginConfigurationAdminClient_create_or_update lib srv self plugin_name plugin_configuration_id enabled
       consumer field_map sent =
     (let values = prefix_values field_map;
          d = dict_update [(''name'', PStr plugin_name), (''consumer_id'', consumer)] values;
          d = (if enabled \<noteq> PNone \<and> is_bool enabled then dict_set d ''enabled'' enabled else d);
          d = (if plugin_configuration_id \<noteq> PNone then dict_set d ''id'' plugin_configuration_id else d);
          (response, sent') = send srv PUT (get_url lib self [''apis'', self_api_name_or_id self, ''plugins''] [])
                                d (get_headers self []) sent
      in (check_created_or_ok lib response, sent'))"

text \<open>This \<open>update\<close> has no whitelist: every extra field becomes a \<open>value.\<close> entry.\<close>

definition APIPluginConfigurationAdminClient_update ::
    "pylib \<Rightarrow> server \<Rightarrow> plugin_configuration_client \<Rightarrow> string \<Rightarrow> pyval \<Rightarrow> pyval \<Rightarrow> (string \<times> pyval) list \<Rightarrow>
     request list \<Rightarrow> (error + pyval) \<times> request list" where
  "APIPluginConfigurationAdminClient_update lib srv self plugin_name enabled consumer field_map sent =
     (let values = prefix_values field_map;
          data_struct_update = dict_update [(''name'', PStr plugin_name)] values;
          data_struct_update =
            (if consumer \<noteq> PNone then dict_set data_struct_update ''consumer_id'' consumer
             else data_struct_update);
          data_struct_update =
            (if enabled \<noteq> PNone \<and> is_bool enabled then dict_set data_struct_update ''enabled'' enabled
             else data_struct_update);
          url = get_url lib self [''apis'', self_api_name_or_id self, ''plugins'', plugin_name] [];
          (response, sent') = send srv PATCH url data_struct_update (get_headers self []) sent
      in (check_ok lib response, sent'))"

text \<open>The offset is tested with \<open>if offset is not None\<close> here.\<close>

definition APIPluginConfigurationAdminClient_list ::
    "pylib \<Rightarrow> server \<Rightarrow> plugin_configuration_client \<Rightarrow> pyval \<Rightarrow> pyval \<Rightarrow> (string \<times> pyval) list \<Rightarrow>
     request list \<Rightarrow> (error + pyval) \<times> request list" where
  "APIPluginConfigurationAdminClient_list lib srv self sz offset filter_fields sent =
     (case assert_dict_keys_in filter_fields [''id'', ''name'', ''api_id'', ''consumer_id''] of
        Some e \<Rightarrow> (Inl e, sent)
      | None \<Rightarrow>
          (let query_params = filter_fields;
               query_params = dict_set query_params ''size'' sz;
               query_params = (if offset \<noteq> PNone then dict_set query_params ''offset'' offset else query_params);
               url = get_url lib self [''apis'', self_api_name_or_id self, ''plugins''] query_params;
               (response, sent') = send srv GET url [] (get_headers self []) sent
           in (check_ok lib response, sent')))"

definition APIPluginConfigurationAdminClient_delete_body ::
    "pylib \<Rightarrow> server \<Rightarrow> plugin_configuration_client \<Rightarrow> string \<Rightarrow> request list \<Rightarrow> (error + pyval) \<times> request list" where
  "APIPluginConfigurationAdminClient_delete_body lib srv self plugin_name_or_id sent =
     (let (response, sent') =
            send srv DELETE (get_url lib self [''apis'', self_api_name_or_id self, ''plugins'', plugin_name_or_id] [])
              [] (get_headers self []) sent
      in (check_deleted
            (\<lambda>status. ''Could not delete Plugin Configuration (status: '' @ str_nat status @ ''): '' @ plugin_name_or_id)
            response, sent'))"

definition APIPluginConfigurationAdminClient_delete ::
    "pylib \<Rightarrow> server \<Rightarrow> plugin_configuration_client \<Rightarrow> string \<Rightarrow> request list \<Rightarrow> (error + pyval) \<times> request list" where
  "APIPluginConfigurationAdminClient_delete lib srv self plugin_name_or_id =
     on_exception 3 0 (APIPluginConfigurationAdminClient_delete_body lib srv self plugin_name_or_id)"

definition APIPluginConfigurationAdminClient_count ::
    "pylib \<Rightarrow> server \<Rightarrow> plugin_configuration_client \<Rightarrow> request list \<Rightarrow> (error + pyval) \<times> request list" where
  "APIPluginConfigurationAdminClient_count lib srv self sent =
     (let (response, sent') = send srv GET (get_url lib self [''apis'', self_api_name_or_id self, ''plugins''] [])
                                [] (get_headers self []) sent
      in (count_result response, sent'))"

subsection \<open>\<open>APIAdminClient\<close>\<close>

definition APIAdminClient :: "config \<Rightarrow> string \<Rightarrow> rest_client" where
  "APIAdminClient cfg url = \<lparr>api_url = url, headers = get_default_kong_headers cfg\<rparr>"

definition APIAdminClient_count :: "pylib \<Rightarrow> server \<Rightarrow> rest_client \<Rightarrow> request list \<Rightarrow> (error + pyval) \<times> request list" where
  "APIAdminClient_count lib srv self sent =
     (let (response, sent') = send srv GET (get_url lib self [''apis''] []) [] (get_headers self []) sent
      in (count_result response, sent'))"

definition APIAdminClient_add ::
    "pylib \<Rightarrow> server \<Rightarrow> rest_client \<Rightarrow> pyval \<Rightarrow> pyval \<Rightarrow> pyval \<Rightarrow> pyval \<Rightarrow> pyval \<Rightarrow> pyval \<Rightarrow>
     request list \<Rightarrow> (error + pyval) \<times> request list" where
  "APIAdminClient_add lib srv self target_url name public_dns path strip_path preserve_host sent =
     (let (response, sent') =
            send srv POST (get_url lib self [''apis''] [])
              [(''name'', name),
               (''public_dns'', py_or public_dns PNone),
               (''path'', py_or path PNone),
               (''strip_path'', strip_path),
               (''preserve_host'', preserve_host),
               (''target_url'', target_url)]
              (get_headers self []) sent
      in (check_created lib response, sent'))"

definition APIAdminClient_add_or_update ::
    "pylib \<Rightarrow> server \<Rightarrow> rest_client \<Rightarrow> pyval \<Rightarrow> pyval \<Rightarrow> pyval \<Rightarrow> pyval \<Rightarrow> pyval \<Rightarrow> pyval \<Rightarrow> pyval \<Rightarrow>
     request list \<Rightarrow> (error + pyval) \<times> request list" where
  "APIAdminClient_add_or_update lib srv self target_url api_id name public_dns path strip_path preserve_host sent =
     (let d = [(''name'', name),
               (''public_dns'', py_or public_dns PNone),
               (''path'', py_or path PNone),
               (''strip_path'', strip_path),
               (''preserve_host'', preserve_host),
               (''target_url'', target_url)];
          d = (if api_id \<noteq> PNone then dict_set d ''id'' api_id else d);
          (response, sent') = send srv PUT (get_url lib self [''apis''] []) d (get_headers self []) sent
      in (check_created_or_ok lib response, sent'))"

definition APIAdminClient_update ::
    "pylib \<Rightarrow> server \<Rightarrow> rest_client \<Rightarrow> string \<Rightarrow> pyval \<Rightarrow> (string \<times> pyval) list \<Rightarrow>
     request list \<Rightarrow> (error + pyval) \<times> request list" where
  "APIAdminClient_update lib srv self name_or_id target_url field_map sent =
     (case assert_dict_keys_in field_map [''name'', ''public_dns'', ''path'', ''strip_path'', ''preserve_host''] of
        Some e \<Rightarrow> (Inl e, sent)
      | None \<Rightarrow>
          (let (response, sent') =
                 send srv PATCH (get_url lib self [''apis'', name_or_id] [])
                   (dict_update [(''target_url'', target_url)] field_map) (get_headers self []) sent
           in (check_ok lib response, sent')))"

definition APIAdminClient_delete_body ::
    "pylib \<Rightarrow> server \<Rightarrow> rest_client \<Rightarrow> string \<Rightarrow> request list \<Rightarrow> (error + pyval) \<times> request list" where
  "APIAdminClient_delete_body lib srv self name_or_id sent =
     (let (response, sent') =
            send srv DELETE (get_url lib self [''apis'', name_or_id] []) [] (get_headers self []) sent
      in (check_deleted (\<lambda>status. ''Could not delete API (status: '' @ str_nat status @ ''): '' @ name_or_id)
            response, sent'))"

definition APIAdminClient_delete ::
    "pylib \<Rightarrow> server \<Rightarrow> rest_client \<Rightarrow> string \<Rightarrow> request list \<Rightarrow> (error + pyval) \<times> request list" where
  "APIAdminClient_delete lib srv self name_or_id = on_exception 3 0 (APIAdminClient_delete_body lib srv self name_or_id)"

definition APIAdminClient_retrieve ::
    "pylib \<Rightarrow> server \<Rightarrow> rest_client \<Rightarrow> string \<Rightarrow> request list \<Rightarrow> (error + pyval) \<times> request list" where
  "APIAdminClient_retrieve lib srv self name_or_id sent =
     (let (response, sent') =
            send srv GET (get_url lib self [''apis'', name_or_id] []) [] (get_headers self []) sent
      in (check_ok lib response, sent'))"

text \<open>The offset is tested with \<open>if offset\<close> here: by its truth value.\<close>

definition APIAdminClient_list ::
    "pylib \<Rightarrow> server \<Rightarrow> rest_client \<Rightarrow> pyval \<Rightarrow> pyval \<Rightarrow> (string \<times> pyval) list \<Rightarrow>
     request list \<Rightarrow> (error + pyval) \<times> request list" where
  "APIAdminClient_list lib srv self sz offset filter_fields sent =
     (case assert_dict_keys_in filter_fields [''id'', ''name'', ''public_dns'', ''path''] of
        Some e \<Rightarrow> (Inl e, sent)
      | None \<Rightarrow>
          (let query_params = filter_fields;
               query_params = dict_set query_params ''size'' sz;
               query_params = (if truthy offset then dict_set query_params ''offset'' offset else query_params);
               url = get_url lib self [''apis''] query_params;
               (response, sent') = send srv GET url [] (get_headers self []) sent
           in (check_ok lib response, sent')))"

definition APIAdminClient_plugins :: "config \<Rightarrow> rest_client \<Rightarrow> string \<Rightarrow> plugin_configuration_client" where
  "APIAdminClient_plugins cfg self name_or_id = APIPluginConfigurationAdminClient cfg name_or_id (api_url self)"

subsection \<open>\<open>BasicAuthAdminClient\<close>\<close>

definition BasicAuthAdminClient :: "config \<Rightarrow> string \<Rightarrow> string \<Rightarrow> consumer_auth_client" where
  "BasicAuthAdminClient cfg consumer url =
     \<lparr>api_url = url, headers = get_default_kong_headers cfg, self_consumer_id = consumer\<rparr>"

definition BasicAuthAdminClient_create_or_update ::
    "pylib \<Rightarrow> server \<Rightarrow> consumer_auth_client \<Rightarrow> pyval \<Rightarrow> pyval \<Rightarrow> pyval \<Rightarrow> request list \<Rightarrow> (error + pyval) \<times> request list" where
  "BasicAuthAdminClient_create_or_update lib srv self basic_auth_id username password sent =
     (let d = [(''username'', username), (''password'', password)];
          d = (if basic_auth_id \<noteq> PNone then dict_set d ''id'' basic_auth_id else d);
          (response, sent') = send srv PUT (get_url lib self [''consumers'', self_consumer_id self, ''basicauth''] [])
                                d (get_headers self []) sent
      in (check_created_or_ok lib response, sent'))"

definition BasicAuthAdminClient_create ::
    "pylib \<Rightarrow> server \<Rightarrow> consumer_auth_client \<Rightarrow> pyval \<Rightarrow> pyval \<Rightarrow> request list \<Rightarrow> (error + pyval) \<times> request list" where
  "BasicAuthAdminClient_create lib srv self username password sent =
     (let (response, sent') =
            send srv POST (get_url lib self [''consumers'', self_consumer_id self, ''basicauth''] [])
              [(''username'', username), (''password'', password)] (get_headers self []) sent
      in (check_created lib response, sent'))"

definition BasicAuthAdminClient_list ::
    "pylib \<Rightarrow> server \<Rightarrow> consumer_auth_client \<Rightarrow> pyval \<Rightarrow> pyval \<Rightarrow> (string \<times> pyval) list \<Rightarrow> request list \<Rightarrow> (error + pyval) \<times> request list" where
  "BasicAuthAdminClient_list lib srv self sz offset filter_fields sent =
     (case assert_dict_keys_in filter_fields [''id'', ''username''] of
        Some e \<Rightarrow> (Inl e, sent)
      | None \<Rightarrow>
          (let query_params = filter_fields;
               query_params = dict_set query_params ''size'' sz;
               query_params = (if truthy offset then dict_set query_params ''offset'' offset else query_params);
               url = get_url lib self [''consumers'', self_consumer_id self, ''basicauth''] query_params;
               (response, sent') = send srv GET url [] (get_headers self []) sent
           in (check_ok lib response, sent')))"

definition BasicAuthAdminClient_delete_body ::
    "pylib \<Rightarrow> server \<Rightarrow> consumer_auth_client \<Rightarrow> string \<Rightarrow> request list \<Rightarrow> (error + pyval) \<times> request list" where
  "BasicAuthAdminClient_delete_body lib srv self basic_auth_id sent =
     (let url = get_url lib self [''consumers'', self_consumer_id self, ''basicauth'', basic_auth_id] [];
          (response, sent') = send srv DELETE url [] (get_headers self []) sent
      in (check_deleted
            (\<lambda>status. ''Could not delete Basic Auth (status: '' @ str_nat status @ ''): '' @ basic_auth_id @
               '' for Consumer: '' @ self_consumer_id self)
            response, sent'))"

definition BasicAuthAdminClient_delete ::
    "pylib \<Rightarrow> server \<Rightarrow> consumer_auth_client \<Rightarrow> string \<Rightarrow> request list \<Rightarrow> (error + pyval) \<times> request list" where
  "BasicAuthAdminClient_delete lib srv self basic_auth_id = on_exception 3 0 (BasicAuthAdminClient_delete_body lib srv self basic_auth_id)"

definition BasicAuthAdminClient_retrieve ::
    "pylib \<Rightarrow> server \<Rightarrow> consumer_auth_client \<Rightarrow> string \<Rightarrow> request list \<Rightarrow> (error + pyval) \<times> request list" where
  "BasicAuthAdminClient_retrieve lib srv self basic_auth_id sent =
     (let (response, sent') =
            send srv GET (get_url lib self [''consumers'', self_consumer_id self, ''basicauth'', basic_auth_id] [])
              [] (get_headers self []) sent
      in (check_ok lib response, sent'))"

definition BasicAuthAdminClient_count ::
    "pylib \<Rightarrow> server \<Rightarrow> consumer_auth_client \<Rightarrow> request list \<Rightarrow> (error + pyval) \<times> request list" where
  "BasicAuthAdminClient_count lib srv self sent =
     (let (response, sent') =
            send srv GET (get_url lib self [''consumers'', self_consumer_id self, ''basicauth''] [])
              [] (get_headers self []) sent
      in (count_result response, sent'))"

definition BasicAuthAdminClient_update ::
    "pylib \<Rightarrow> server \<Rightarrow> consumer_auth_client \<Rightarrow> string \<Rightarrow> (string \<times> pyval) list \<Rightarrow> request list \<Rightarrow> (error + pyval) \<times> request list" where
  "BasicAuthAdminClient_update lib srv self basic_auth_id field_map sent =
     (case assert_dict_keys_in field_map [''username'', ''password''] of
        Some e \<Rightarrow> (Inl e, sent)
      | None \<Rightarrow>
          (let (response, sent') =
                 send srv PATCH (get_url lib self [''consumers'', self_consumer_id self, ''basicauth'', basic_auth_id] [])
                   field_map (get_headers self []) sent
           in (check_ok lib response, sent')))"

subsection \<open>\<open>KeyAuthAdminClient\<close>\<close>

definition KeyAuthAdminClient :: "config \<Rightarrow> string \<Rightarrow> string \<Rightarrow> consumer_auth_client" where
  "KeyAuthAdminClient cfg consumer url =
     \<lparr>api_url = url, headers = get_default_kong_headers cfg, self_consumer_id = consumer\<rparr>"

definition KeyAuthAdminClient_create_or_update ::
    "pylib \<Rightarrow> server \<Rightarrow> consumer_auth_client \<Rightarrow> pyval \<Rightarrow> pyval \<Rightarrow> request list \<Rightarrow> (error + pyval) \<times> request list" where
  "KeyAuthAdminClient_create_or_update lib srv self key_auth_id key sent =
     (let d = [(''key'', key)];
          d = (if key_auth_id \<noteq> PNone then dict_set d ''id'' key_auth_id else d);
          (response, sent') = send srv PUT (get_url lib self [''consumers'', self_consumer_id self, ''keyauth''] [])
                                d (get_headers self []) sent
      in (check_created_or_ok lib response, sent'))"

definition KeyAuthAdminClient_create ::
    "pylib \<Rightarrow> server \<Rightarrow> consumer_auth_client \<Rightarrow> pyval \<Rightarrow> request list \<Rightarrow> (error + pyval) \<times> request list" where
  "KeyAuthAdminClient_create lib srv self key sent =
     (let (response, sent') =
            send srv POST (get_url lib self [''consumers'', self_consumer_id self, ''keyauth''] [])
              [(''key'', key)] (get_headers self []) sent
      in (check_created lib response, sent'))"

definition KeyAuthAdminClient_list ::
    "pylib \<Rightarrow> server \<Rightarrow> consumer_auth_client \<Rightarrow> pyval \<Rightarrow> pyval \<Rightarrow> (string \<times> pyval) list \<Rightarrow> request list \<Rightarrow> (error + pyval) \<times> request list" where
  "KeyAuthAdminClient_list lib srv self sz offset filter_fields sent =
     (case assert_dict_keys_in filter_fields [''id'', ''key''] of
        Some e \<Rightarrow> (Inl e, sent)
      | None \<Rightarrow>
          (let query_params = filter_fields;
               query_params = dict_set query_params ''size'' sz;
               query_params = (if truthy offset then dict_set query_params ''offset'' offset else query_params);
               url = get_url lib self [''consumers'', self_consumer_id self, ''keyauth''] query_params;
               (response, sent') = send srv GET url [] (get_headers self []) sent
           in (check_ok lib response, sent')))"

definition KeyAuthAdminClient_delete_body ::
    "pylib \<Rightarrow> server \<Rightarrow> consumer_auth_client \<Rightarrow> string \<Rightarrow> request list \<Rightarrow> (error + pyval) \<times> request list" where
  "KeyAuthAdminClient_delete_body lib srv self key_auth_id sent =
     (let url = get_url lib self [''consumers'', self_consumer_id self, ''keyauth'', key_auth_id] [];
          (response, sent') = send srv DELETE url [] (get_headers self []) sent
      in (check_deleted
            (\<lambda>status. ''Could not delete Key Auth (status: '' @ str_nat status @ ''): '' @ key_auth_id @
               '' for Consumer: '' @ self_consumer_id self)
            response, sent'))"

definition KeyAuthAdminClient_delete ::
    "pylib \<Rightarrow> server \<Rightarrow> consumer_auth_client \<Rightarrow> string \<Rightarrow> request list \<Rightarrow> (error + pyval) \<times> request list" where
  "KeyAuthAdminClient_delete lib srv self key_auth_id = on_exception 3 0 (KeyAuthAdminClient_delete_body lib srv self key_auth_id)"

definition KeyAuthAdminClient_retrieve ::
    "pylib \<Rightarrow> server \<Rightarrow> consumer_auth_client \<Rightarrow> string \<Rightarrow> request list \<Rightarrow> (error + pyval) \<times> request list" where
  "KeyAuthAdminClient_retrieve lib srv self key_auth_id sent =
     (let (response, sent') =
            send srv GET (get_url lib self [''consumers'', self_consumer_id self, ''keyauth'', key_auth_id] [])
              [] (get_headers self []) sent
      in (check_ok lib response, sent'))"

definition KeyAuthAdminClient_count ::
    "pylib \<Rightarrow> server \<Rightarrow> consumer_auth_client \<Rightarrow> request list \<Rightarrow> (error + pyval) \<times> request list" where
  "KeyAuthAdminClient_count lib srv self sent =
     (let (response, sent') =
            send srv GET (get_url lib self [''consumers'', self_consumer_id self, ''keyauth''] [])
              [] (get_headers self []) sent
      in (count_result response, sent'))"

definition KeyAuthAdminClient_update ::
    "pylib \<Rightarrow> server \<Rightarrow> consumer_auth_client \<Rightarrow> string \<Rightarrow> (string \<times> pyval) list \<Rightarrow> request list \<Rightarrow> (error + pyval) \<times> request list" where
  "KeyAuthAdminClient_update lib srv self key_auth_id field_map sent =
     (case assert_dict_keys_in field_map [''key''] of
        Some e \<Rightarrow> (Inl e, sent)
      | None \<Rightarrow>
          (let (response, sent') =
                 send srv PATCH (get_url lib self [''consumers'', self_consumer_id self, ''keyauth'', key_auth_id] [])
                   field_map (get_headers self []) sent
           in (check_ok lib response, sent')))"

subsection \<open>\<open>OAuth2AdminClient\<close>\<close>

definition OAuth2AdminClient :: "config \<Rightarrow> string \<Rightarrow> string \<Rightarrow> consumer_auth_client" where
  "OAuth2AdminClient cfg consumer url =
     \<lparr>api_url = url, headers = get_default_kong_headers cfg, self_consumer_id = consumer\<rparr>"

definition OAuth2AdminClient_create_or_update ::
    "pylib \<Rightarrow> server \<Rightarrow> consumer_auth_client \<Rightarrow> pyval \<Rightarrow> pyval \<Rightarrow> pyval \<Rightarrow> pyval \<Rightarrow> pyval \<Rightarrow> request list \<Rightarrow> (error + pyval) \<times> request list" where
  "OAuth2AdminClient_create_or_update lib srv self oauth2_id name redirect_uri client_id client_secret sent =
     (let d = [(''name'', name), (''redirect_uri'', redirect_uri), (''client_id'', client_id), (''client_secret'', client_secret)];
          d = (if oauth2_id \<noteq> PNone then dict_set d ''id'' oauth2_id else d);
          (response, sent') = send srv PUT (get_url lib self [''consumers'', self_consumer_id self, ''oauth2''] [])
                                d (get_headers self []) sent
      in (check_created_or_ok lib response, sent'))"

definition OAuth2AdminClient_create ::
    "pylib \<Rightarrow> server \<Rightarrow> consumer_auth_client \<Rightarrow> pyval \<Rightarrow> pyval \<Rightarrow> pyval \<Rightarrow> pyval \<Rightarrow> request list \<Rightarrow> (error + pyval) \<times> request list" where
  "OAuth2AdminClient_create lib srv self name redirect_uri client_id client_secret sent =
     (let (response, sent') =
            send srv POST (get_url lib self [''consumers'', self_consumer_id self, ''oauth2''] [])
              [(''name'', name), (''redirect_uri'', redirect_uri), (''client_id'', client_id), (''client_secret'', client_secret)] (get_headers self []) sent
      in (check_created lib response, sent'))"

definition OAuth2AdminClient_list ::
    "pylib \<Rightarrow> server \<Rightarrow> consumer_auth_client \<Rightarrow> pyval \<Rightarrow> pyval \<Rightarrow> (string \<times> pyval) list \<Rightarrow> request list \<Rightarrow> (error + pyval) \<times> request list" where
  "OAuth2AdminClient_list lib srv self sz offset filter_fields sent =
     (case assert_dict_keys_in filter_fields [''id'', ''name'', ''redirect_url'', ''client_id''] of
        Some e \<Rightarrow> (Inl e, sent)
      | None \<Rightarrow>
          (let query_params = filter_fields;
               query_params = dict_set query_params ''size'' sz;
               query_params = (if truthy offset then dict_set query_params ''offset'' offset else query_params);
               url = get_url lib self [''consumers'', self_consumer_id self, ''oauth2''] query_params;
               (response, sent') = send srv GET url [] (get_headers self []) sent
           in (check_ok lib response, sent')))"

definition OAuth2AdminClient_delete_body ::
    "pylib \<Rightarrow> server \<Rightarrow> consumer_auth_client \<Rightarrow> string \<Rightarrow> request list \<Rightarrow> (error + pyval) \<times> request list" where
  "OAuth2AdminClient_delete_body lib srv self oauth2_id sent =
     (let url = get_url lib self [''consumers'', self_consumer_id self, ''oauth2'', oauth2_id] [];
          (response, sent') = send srv DELETE url [] (get_headers self []) sent
      in (check_deleted
            (\<lambda>status. ''Could not delete OAuth2 (status: '' @ str_nat status @ ''): '' @ oauth2_id @
               '' for Consumer: '' @ self_consumer_id self)
            response, sent'))"

definition OAuth2AdminClient_delete ::
    "pylib \<Rightarrow> server \<Rightarrow> consumer_auth_client \<Rightarrow> string \<Rightarrow> request list \<Rightarrow> (error + pyval) \<times> request list" where
  "OAuth2AdminClient_delete lib srv self oauth2_id = on_exception 3 0 (OAuth2AdminClient_delete_body lib srv self oauth2_id)"

definition OAuth2AdminClient_retrieve ::
    "pylib \<Rightarrow> server \<Rightarrow> consumer_auth_client \<Rightarrow> string \<Rightarrow> request list \<Rightarrow> (error + pyval) \<times> request list" where
  "OAuth2AdminClient_retrieve lib srv self oauth2_id sent =
     (let (response, sent') =
            send srv GET (get_url lib self [''consumers'', self_consumer_id self, ''oauth2'', oauth2_id] [])
              [] (get_headers self []) sent
      in (check_ok lib response, sent'))"

definition OAuth2AdminClient_count ::
    "pylib \<Rightarrow> server \<Rightarrow> consumer_auth_client \<Rightarrow> request list \<Rightarrow> (error + pyval) \<times> request list" where
  "OAuth2AdminClient_count lib srv self sent =
     (let (response, sent') =
            send srv GET (get_url lib self [''consumers'', self_consumer_id self, ''oauth2''] [])
              [] (get_headers self []) sent
      in (count_result response, sent'))"

definition OAuth2AdminClient_update ::
    "pylib \<Rightarrow> server \<Rightarrow> consumer_auth_client \<Rightarrow> string \<Rightarrow> (string \<times> pyval) list \<Rightarrow> request list \<Rightarrow> (error + pyval) \<times> request list" where
  "OAuth2AdminClient_update lib srv self oauth2_id field_map sent =
     (case assert_dict_keys_in field_map [''name'', ''redirect_uri'', ''client_id'', ''client_secret''] of
        Some e \<Rightarrow> (Inl e, sent)
      | None \<Rightarrow>
          (let (response, sent') =
                 send srv PATCH (get_url lib self [''consumers'', self_consumer_id self, ''oauth2'', oauth2_id] [])
                   field_map (get_headers self []) sent
           in (check_ok lib response, sent')))"

subsection \<open>\<open>ConsumerAdminClient\<close>\<close>

definition ConsumerAdminClient :: "config \<Rightarrow> string \<Rightarrow> rest_client" where
  "ConsumerAdminClient cfg url = \<lparr>api_url = url, headers = get_default_kong_headers cfg\<rparr>"

definition ConsumerAdminClient_count :: "pylib \<Rightarrow> server \<Rightarrow> rest_client \<Rightarrow> request list \<Rightarrow> (error + pyval) \<times> request list" where
  "ConsumerAdminClient_count lib srv self sent =
     (let (response, sent') = send srv GET (get_url lib self [''consumers''] []) [] (get_headers self []) sent
      in (count_result response, sent'))"

definition ConsumerAdminClient_create ::
    "pylib \<Rightarrow> server \<Rightarrow> rest_client \<Rightarrow> pyval \<Rightarrow> pyval \<Rightarrow> request list \<Rightarrow> (error + pyval) \<times> request list" where
  "ConsumerAdminClient_create lib srv self username custom_id sent =
     (let (response, sent') =
            send srv POST (get_url lib self [''consumers''] [])
              [(''username'', username), (''custom_id'', custom_id)] (get_headers self []) sent
      in (check_created lib response, sent'))"

definition ConsumerAdminClient_create_or_update ::
    "pylib \<Rightarrow> server \<Rightarrow> rest_client \<Rightarrow> pyval \<Rightarrow> pyval \<Rightarrow> pyval \<Rightarrow> request list \<Rightarrow> (error + pyval) \<times> request list" where
  "ConsumerAdminClient_create_or_update lib srv self consumer username custom_id sent =
     (let d = [(''username'', username), (''custom_id'', custom_id)];
          d = (if consumer \<noteq> PNone then dict_set d ''id'' consumer else d);
          (response, sent') = send srv PUT (get_url lib self [''consumers''] []) d (get_headers self []) sent
      in (check_created_or_ok lib response, sent'))"

definition ConsumerAdminClient_update ::
    "pylib \<Rightarrow> server \<Rightarrow> rest_client \<Rightarrow> string \<Rightarrow> (string \<times> pyval) list \<Rightarrow> request list \<Rightarrow> (error + pyval) \<times> request list" where
  "ConsumerAdminClient_update lib srv self username_or_id field_map sent =
     (case assert_dict_keys_in field_map [''username'', ''custom_id''] of
        Some e \<Rightarrow> (Inl e, sent)
      | None \<Rightarrow>
          (let (response, sent') =
                 send srv PATCH (get_url lib self [''consumers'', username_or_id] []) field_map (get_headers self []) sent
           in (check_ok lib response, sent')))"

definition ConsumerAdminClient_list ::
    "pylib \<Rightarrow> server \<Rightarrow> rest_client \<Rightarrow> pyval \<Rightarrow> pyval \<Rightarrow> (string \<times> pyval) list \<Rightarrow>
     request list \<Rightarrow> (error + pyval) \<times> request list" where
  "ConsumerAdminClient_list lib srv self sz offset filter_fields sent =
     (case assert_dict_keys_in filter_fields [''id'', ''custom_id'', ''username''] of
        Some e \<Rightarrow> (Inl e, sent)
      | None \<Rightarrow>
          (let query_params = filter_fields;
               query_params = dict_set query_params ''size'' sz;
               query_params = (if truthy offset then dict_set query_params ''offset'' offset else query_params);
               url = get_url lib self [''consumers''] query_params;
               (response, sent') = send srv GET url [] (get_headers self []) sent
           in (check_ok lib response, sent')))"

definition ConsumerAdminClient_delete_body ::
    "pylib \<Rightarrow> server \<Rightarrow> rest_client \<Rightarrow> string \<Rightarrow> request list \<Rightarrow> (error + pyval) \<times> request list" where
  "ConsumerAdminClient_delete_body lib srv self username_or_id sent =
     (let (response, sent') =
            send srv DELETE (get_url lib self [''consumers'', username_or_id] []) [] (get_headers self []) sent
      in (check_deleted
            (\<lambda>status. ''Could not delete Consumer (status: '' @ str_nat status @ ''): '' @ username_or_id)
            response, sent'))"

definition ConsumerAdminClient_delete ::
    "pylib \<Rightarrow> server \<Rightarrow> rest_client \<Rightarrow> string \<Rightarrow> request list \<Rightarrow> (error + pyval) \<times> request list" where
  "ConsumerAdminClient_delete lib srv self username_or_id =
     on_exception 3 0 (ConsumerAdminClient_delete_body lib srv self username_or_id)"

definition ConsumerAdminClient_retrieve ::
    "pylib \<Rightarrow> server \<Rightarrow> rest_client \<Rightarrow> string \<Rightarrow> request list \<Rightarrow> (error + pyval) \<times> request list" where
  "ConsumerAdminClient_retrieve lib srv self username_or_id sent =
     (let (response, sent') =
            send srv GET (get_url lib self [''consumers'', username_or_id] []) [] (get_headers self []) sent
      in (check_ok lib response, sent'))"

definition ConsumerAdminClient_basic_auth :: "config \<Rightarrow> rest_client \<Rightarrow> string \<Rightarrow> consumer_auth_client" where
  "ConsumerAdminClient_basic_auth cfg self username_or_id = BasicAuthAdminClient cfg username_or_id (api_url self)"

definition ConsumerAdminClient_key_auth :: "config \<Rightarrow> rest_client \<Rightarrow> string \<Rightarrow> consumer_auth_client" where
  "ConsumerAdminClient_key_auth cfg self username_or_id = KeyAuthAdminClient cfg username_or_id (api_url self)"

definition ConsumerAdminClient_oauth2 :: "config \<Rightarrow> rest_client \<Rightarrow> string \<Rightarrow> consumer_auth_client" where
  "ConsumerAdminClient_oauth2 cfg self username_or_id = OAuth2AdminClient cfg username_or_id (api_url self)"

subsection \<open>\<open>PluginAdminClient\<close>\<close>

definition PluginAdminClient :: "config \<Rightarrow> string \<Rightarrow> rest_client" where
  "PluginAdminClient cfg url = \<lparr>api_url = url, headers = get_default_kong_headers cfg\<rparr>"

definition PluginAdminClient_list :: "pylib \<Rightarrow> server \<Rightarrow> rest_client \<Rightarrow> request list \<Rightarrow> (error + pyval) \<times> request list" where
  "PluginAdminClient_list lib srv self sent =
     (let (response, sent') = send srv GET (get_url lib self [''plugins''] []) [] (get_headers self []) sent
      in (check_ok lib response, sent'))"

definition PluginAdminClient_retrieve_schema ::
    "pylib \<Rightarrow> server \<Rightarrow> rest_client \<Rightarrow> string \<Rightarrow> request list \<Rightarrow> (error + pyval) \<times> request list" where
  "PluginAdminClient_retrieve_schema lib srv self plugin_name sent =
     (let (response, sent') =
            send srv GET (get_url lib self [''plugins'', plugin_name, ''schema''] []) [] (get_headers self []) sent
      in (check_ok lib response, sent'))"

section \<open>The throttled session (\<open>ThrottlingHTTPAdapter\<close>, \<open>RestClient.session\<close>)\<close>

text \<open>
  Time is explicit: \<open>now\<close> is what \<open>time.time()\<close> returns, \<open>time.sleep(d)\<close> advances it by
  \<open>d\<close>, and the send of the underlying adapter advances it by the duration of the round
  trip. The trace keeps every sleep and the moment each underlying send starts. Seconds
  are real numbers here, not floats.
\<close>

record clock =
  now :: real
  slept :: "real list"
  send_starts :: "real list"

definition sleep :: "real \<Rightarrow> clock \<Rightarrow> clock" where
  "sleep d w = w\<lparr>now := now w + d, slept := slept w @ [d]\<rparr>"

text \<open>\<open>HTTPAdapter.send\<close>: the round trip itself, taking \<open>duration\<close> seconds.\<close>

definition HTTPAdapter_send :: "real \<Rightarrow> clock \<Rightarrow> clock" where
  "HTTPAdapter_send duration w = w\<lparr>now := now w + duration, send_starts := send_starts w @ [now w]\<rparr>"

record adapter =
  last_request :: "real option"

definition ThrottlingHTTPAdapter :: adapter where
  "ThrottlingHTTPAdapter = \<lparr>last_request = None\<rparr>"

definition ThrottlingHTTPAdapter_send :: "config \<Rightarrow> real \<Rightarrow> adapter \<Rightarrow> clock \<Rightarrow> adapter \<times> clock" where
  "ThrottlingHTTPAdapter_send cfg duration self w =
     (let w = (if last_request self \<noteq> None \<and> KONG_MINIMUM_REQUEST_INTERVAL cfg > 0 then
                 (let diff = now w - the (last_request self) in
                  if 0 < diff \<and> diff < KONG_MINIMUM_REQUEST_INTERVAL cfg then sleep diff w else w)
               else w);
          w = HTTPAdapter_send duration w
      in (self\<lparr>last_request := Some (now w)\<rparr>, w))"

text \<open>
  A session is the adapter mounted on it: the throttling one when the interval is
  positive, the plain one (\<open>None\<close>) otherwise. The \<open>session\<close> property creates the session
  on first use and, when connections are not reused, replaces it on every later use.
\<close>

type_synonym session = "adapter option"

definition requests_session :: "config \<Rightarrow> session" where
  "requests_session cfg = (if KONG_MINIMUM_REQUEST_INTERVAL cfg > 0 then Some ThrottlingHTTPAdapter else None)"

definition session_property :: "config \<Rightarrow> session option \<Rightarrow> session" where
  "session_property cfg s =
     (case s of
        None \<Rightarrow> requests_session cfg
      | Some existing \<Rightarrow> if \<not> KONG_REUSE_CONNECTIONS cfg then requests_session cfg else existing)"

text \<open>
  One request through the client, \<open>self.session.get(...)\<close> and its siblings, to a URL
  under the prefix the adapter is mounted on (\<open>api_url\<close>). A request to any other URL
  goes through the library's default adapter and is outside this model.
\<close>

definition session_send :: "config \<Rightarrow> real \<Rightarrow> session option \<Rightarrow> clock \<Rightarrow> session option \<times> clock" where
  "session_send cfg duration s w =
     (case session_property cfg s of
        None \<Rightarrow> (Some None, HTTPAdapter_send duration w)
      | Some a \<Rightarrow> (let (a', w') = ThrottlingHTTPAdapter_send cfg duration a w in (Some (Some a'), w')))"

section \<open>Verification\<close>

subsection \<open>Auxiliary facts\<close>

lemma send_fst: "fst (send srv m url d hs sent) = srv (length sent)"
  by (simp add: send_def)

lemma str_nat_500: "str_nat 500 = ''500''"
  by code_simp

lemma on_exception_success:
  "fst (target s) = Inr v \<Longrightarrow> on_exception max_tries tries target s = target s"
  by (subst on_exception.simps) (simp add: Let_def)

lemma on_exception_last:
  "\<not> Suc tries < max_tries \<Longrightarrow> on_exception max_tries tries target s = target s"
  by (subst on_exception.simps) (simp add: Let_def)

lemma on_exception_retry:
  "fst (target s) = Inl e \<Longrightarrow> is_ValueError e \<Longrightarrow> Suc tries < max_tries \<Longrightarrow>
   on_exception max_tries tries target s = on_exception max_tries (Suc tries) target (snd (target s))"
  by (subst on_exception.simps) (simp add: Let_def)

lemma retry_two_failures_then_success:
  assumes body: "\<And>sent. body sent = (check_deleted msg (srv (length sent)), sent @ [req])"
    and f0: "status_code (srv (length sent)) \<notin> {NO_CONTENT, NOT_FOUND}"
    and f1: "status_code (srv (Suc (length sent))) \<notin> {NO_CONTENT, NOT_FOUND}"
    and ok: "status_code (srv (Suc (Suc (length sent)))) \<in> {NO_CONTENT, NOT_FOUND}"
  shows "on_exception 3 0 body sent = (Inr PNone, sent @ [req, req, req])"
proof -
  have a0: "body sent = (Inl (ValueError (msg (status_code (srv (length sent))))), sent @ [req])"
    using f0 by (simp add: body check_deleted_def)
  have a1: "body (sent @ [req]) = (Inl (ValueError (msg (status_code (srv (Suc (length sent)))))), sent @ [req, req])"
    using f1 by (simp add: body check_deleted_def)
  have a2: "body (sent @ [req, req]) = (Inr PNone, sent @ [req, req, req])"
    using ok by (simp add: body check_deleted_def)
  have "on_exception 3 0 body sent = on_exception 3 1 body (sent @ [req])"
    using on_exception_retry [of body sent _ 0 3] a0 by simp
  also have "\<dots> = on_exception 3 2 body (sent @ [req, req])"
    using on_exception_retry [of body "sent @ [req]" _ 1 3] a1 by (simp add: numeral_2_eq_2)
  also have "\<dots> = body (sent @ [req, req])"
    by (rule on_exception_last) simp
  finally show ?thesis using a2 by simp
qed

lemma retry_three_failures:
  assumes body: "\<And>sent. body sent = (check_deleted msg (srv (length sent)), sent @ [req])"
    and f0: "status_code (srv (length sent)) \<notin> {NO_CONTENT, NOT_FOUND}"
    and f1: "status_code (srv (Suc (length sent))) \<notin> {NO_CONTENT, NOT_FOUND}"
    and f2: "status_code (srv (Suc (Suc (length sent)))) \<notin> {NO_CONTENT, NOT_FOUND}"
  shows "on_exception 3 0 body sent =
           (Inl (ValueError (msg (status_code (srv (Suc (Suc (length sent))))))), sent @ [req, req, req])"
proof -
  have a0: "body sent = (Inl (ValueError (msg (status_code (srv (length sent))))), sent @ [req])"
    using f0 by (simp add: body check_deleted_def)
  have a1: "body (sent @ [req]) = (Inl (ValueError (msg (status_code (srv (Suc (length sent)))))), sent @ [req, req])"
    using f1 by (simp add: body check_deleted_def)
  have a2: "body (sent @ [req, req]) =
      (Inl (ValueError (msg (status_code (srv (Suc (Suc (length sent))))))), sent @ [req, req, req])"
    using f2 by (simp add: body check_deleted_def)
  have "on_exception 3 0 body sent = on_exception 3 1 body (sent @ [req])"
    using on_exception_retry [of body sent _ 0 3] a0 by simp
  also have "\<dots> = on_exception 3 2 body (sent @ [req, req])"
    using on_exception_retry [of body "sent @ [req]" _ 1 3] a1 by (simp add: numeral_2_eq_2)
  also have "\<dots> = body (sent @ [req, req])"
    by (rule on_exception_last) simp
  finally show ?thesis using a2 by simp
qed

lemmas delete_defs = APIAdminClient_delete_def APIPluginConfigurationAdminClient_delete_def
  BasicAuthAdminClient_delete_def KeyAuthAdminClient_delete_def OAuth2AdminClient_delete_def
  ConsumerAdminClient_delete_def

lemmas delete_body_defs = APIAdminClient_delete_body_def APIPluginConfigurationAdminClient_delete_body_def
  BasicAuthAdminClient_delete_body_def KeyAuthAdminClient_delete_body_def OAuth2AdminClient_delete_body_def
  ConsumerAdminClient_delete_body_def

lemma retry_succeeds_ex:
  assumes "\<And>sent. body sent = (check_deleted msg (srv (length sent)), sent @ [req])"
    and "status_code (srv (length sent)) \<notin> {NO_CONTENT, NOT_FOUND}"
    and "status_code (srv (Suc (length sent))) \<notin> {NO_CONTENT, NOT_FOUND}"
    and "status_code (srv (Suc (Suc (length sent)))) = NO_CONTENT"
  shows "\<exists>req. on_exception 3 0 body sent = (Inr PNone, sent @ [req, req, req])"
  using retry_two_failures_then_success [OF assms(1-3)] assms(4) by blast

lemma retry_fails_ex:
  assumes "\<And>sent. body sent = (check_deleted msg (srv (length sent)), sent @ [req])"
    and "status_code (srv (length sent)) \<notin> {NO_CONTENT, NOT_FOUND}"
    and "status_code (srv (Suc (length sent))) \<notin> {NO_CONTENT, NOT_FOUND}"
    and "status_code (srv (Suc (Suc (length sent)))) \<notin> {NO_CONTENT, NOT_FOUND}"
  shows "\<exists>req m. on_exception 3 0 body sent = (Inl (ValueError m), sent @ [req, req, req])"
  using retry_three_failures [OF assms] by blast

lemmas operation_defs =
  APIAdminClient_add_def
  APIPluginConfigurationAdminClient_create_def
  BasicAuthAdminClient_create_def
  KeyAuthAdminClient_create_def
  OAuth2AdminClient_create_def
  ConsumerAdminClient_create_def
  APIAdminClient_add_or_update_def
  APIPluginConfigurationAdminClient_create_or_update_def
  BasicAuthAdminClient_create_or_update_def
  KeyAuthAdminClient_create_or_update_def
  OAuth2AdminClient_create_or_update_def
  ConsumerAdminClient_create_or_update_def
  APIPluginConfigurationAdminClient_update_def
  APIAdminClient_retrieve_def
  BasicAuthAdminClient_retrieve_def
  KeyAuthAdminClient_retrieve_def
  OAuth2AdminClient_retrieve_def
  ConsumerAdminClient_retrieve_def
  PluginAdminClient_list_def
  PluginAdminClient_retrieve_schema_def
  APIAdminClient_count_def
  APIPluginConfigurationAdminClient_count_def
  BasicAuthAdminClient_count_def
  KeyAuthAdminClient_count_def
  OAuth2AdminClient_count_def
  ConsumerAdminClient_count_def
  APIAdminClient_update_def
  BasicAuthAdminClient_update_def
  KeyAuthAdminClient_update_def
  OAuth2AdminClient_update_def
  ConsumerAdminClient_update_def
  APIAdminClient_list_def
  APIPluginConfigurationAdminClient_list_def
  BasicAuthAdminClient_list_def
  KeyAuthAdminClient_list_def
  OAuth2AdminClient_list_def
  ConsumerAdminClient_list_def

lemma delete_succeeds_on_third_attempt:
  assumes "status_code (srv (length sent)) \<notin> {NO_CONTENT, NOT_FOUND}"
    and "status_code (srv (Suc (length sent))) \<notin> {NO_CONTENT, NOT_FOUND}"
    and "status_code (srv (Suc (Suc (length sent)))) = NO_CONTENT"
  shows "(\<exists>req. APIAdminClient_delete lib srv self name_or_id sent = (Inr PNone, sent @ [req, req, req])) \<and>
     (\<exists>req. APIPluginConfigurationAdminClient_delete lib srv selfp name_or_id sent = (Inr PNone, sent @ [req, req, req])) \<and>
     (\<exists>req. BasicAuthAdminClient_delete lib srv selfc ident sent = (Inr PNone, sent @ [req, req, req])) \<and>
     (\<exists>req. KeyAuthAdminClient_delete lib srv selfc ident sent = (Inr PNone, sent @ [req, req, req])) \<and>
     (\<exists>req. OAuth2AdminClient_delete lib srv selfc ident sent = (Inr PNone, sent @ [req, req, req])) \<and>
     (\<exists>req. ConsumerAdminClient_delete lib srv self name_or_id sent = (Inr PNone, sent @ [req, req, req]))"
  unfolding delete_defs
  by (intro conjI; rule retry_succeeds_ex [OF _ assms], simp add: delete_body_defs send_def)

lemma delete_fails_after_three_attempts:
  assumes "status_code (srv (length sent)) \<notin> {NO_CONTENT, NOT_FOUND}"
    and "status_code (srv (Suc (length sent))) \<notin> {NO_CONTENT, NOT_FOUND}"
    and "status_code (srv (Suc (Suc (length sent)))) \<notin> {NO_CONTENT, NOT_FOUND}"
  shows "(\<exists>req m. APIAdminClient_delete lib srv self name_or_id sent = (Inl (ValueError m), sent @ [req, req, req])) \<and>
     (\<exists>req m. APIPluginConfigurationAdminClient_delete lib srv selfp name_or_id sent = (Inl (ValueError m), sent @ [req, req, req])) \<and>
     (\<exists>req m. BasicAuthAdminClient_delete lib srv selfc ident sent = (Inl (ValueError m), sent @ [req, req, req])) \<and>
     (\<exists>req m. KeyAuthAdminClient_delete lib srv selfc ident sent = (Inl (ValueError m), sent @ [req, req, req])) \<and>
     (\<exists>req m. OAuth2AdminClient_delete lib srv selfc ident sent = (Inl (ValueError m), sent @ [req, req, req])) \<and>
     (\<exists>req m. ConsumerAdminClient_delete lib srv self name_or_id sent = (Inl (ValueError m), sent @ [req, req, req]))"
  unfolding delete_defs
  by (intro conjI; rule retry_fails_ex [OF _ assms], simp add: delete_body_defs send_def)

lemma retry_first_success_ex:
  assumes body: "\<And>sent. body sent = (check_deleted msg (srv (length sent)), sent @ [req])"
    and ok: "status_code (srv (length sent)) \<in> {NO_CONTENT, NOT_FOUND}"
  shows "\<exists>req. on_exception 3 0 body sent = (Inr PNone, sent @ [req])"
proof -
  have "body sent = (Inr PNone, sent @ [req])"
    using ok by (simp add: body check_deleted_def)
  then show ?thesis
    using on_exception_success [of body sent PNone 3 0] by simp
qed

lemma delete_succeeds_on_first_attempt:
  assumes "status_code (srv (length sent)) \<in> {NO_CONTENT, NOT_FOUND}"
  shows "(\<exists>req. APIAdminClient_delete lib srv self name_or_id sent = (Inr PNone, sent @ [req])) \<and>
     (\<exists>req. APIPluginConfigurationAdminClient_delete lib srv selfp name_or_id sent = (Inr PNone, sent @ [req])) \<and>
     (\<exists>req. BasicAuthAdminClient_delete lib srv selfc ident sent = (Inr PNone, sent @ [req])) \<and>
     (\<exists>req. KeyAuthAdminClient_delete lib srv selfc ident sent = (Inr PNone, sent @ [req])) \<and>
     (\<exists>req. OAuth2AdminClient_delete lib srv selfc ident sent = (Inr PNone, sent @ [req])) \<and>
     (\<exists>req. ConsumerAdminClient_delete lib srv self name_or_id sent = (Inr PNone, sent @ [req]))"
  unfolding delete_defs
  by (intro conjI; rule retry_first_success_ex [where srv = srv], simp add: delete_body_defs send_def, rule assms)

lemma one_request_per_call:
  "(\<exists>req. APIAdminClient_add lib srv self target_url name public_dns path strip_path preserve_host sent =
           (check_created lib (srv (length sent)), sent @ [req])) \<and>
    (\<exists>req. APIPluginConfigurationAdminClient_create lib srv selfp plugin_name enabled consumer field_map sent =
           (check_created lib (srv (length sent)), sent @ [req])) \<and>
    (\<exists>req. BasicAuthAdminClient_create lib srv selfc username password sent =
           (check_created lib (srv (length sent)), sent @ [req])) \<and>
    (\<exists>req. KeyAuthAdminClient_create lib srv selfc key sent =
           (check_created lib (srv (length sent)), sent @ [req])) \<and>
    (\<exists>req. OAuth2AdminClient_create lib srv selfc name redirect_uri client_id client_secret sent =
           (check_created lib (srv (length sent)), sent @ [req])) \<and>
    (\<exists>req. ConsumerAdminClient_create lib srv self username custom_id sent =
           (check_created lib (srv (length sent)), sent @ [req])) \<and>
    (\<exists>req. APIAdminClient_add_or_update lib srv self target_url api_id name public_dns path strip_path preserve_host sent =
           (check_created_or_ok lib (srv (length sent)), sent @ [req])) \<and>
    (\<exists>req. APIPluginConfigurationAdminClient_create_or_update lib srv selfp plugin_name plugin_configuration_id enabled consumer field_map sent =
           (check_created_or_ok lib (srv (length sent)), sent @ [req])) \<and>
    (\<exists>req. BasicAuthAdminClient_create_or_update lib srv selfc basic_auth_id username password sent =
           (check_created_or_ok lib (srv (length sent)), sent @ [req])) \<and>
    (\<exists>req. KeyAuthAdminClient_create_or_update lib srv selfc key_auth_id key sent =
           (check_created_or_ok lib (srv (length sent)), sent @ [req])) \<and>
    (\<exists>req. OAuth2AdminClient_create_or_update lib srv selfc oauth2_id name redirect_uri client_id client_secret sent =
           (check_created_or_ok lib (srv (length sent)), sent @ [req])) \<and>
    (\<exists>req. ConsumerAdminClient_create_or_update lib srv self consumer username custom_id sent =
           (check_created_or_ok lib (srv (length sent)), sent @ [req])) \<and>
    (\<exists>req. APIPluginConfigurationAdminClient_update lib srv selfp plugin_name enabled consumer field_map sent =
           (check_ok lib (srv (length sent)), sent @ [req])) \<and>
    (\<exists>req. APIAdminClient_retrieve lib srv self name_or_id sent =
           (check_ok lib (srv (length sent)), sent @ [req])) \<and>
    (\<exists>req. BasicAuthAdminClient_retrieve lib srv selfc ident sent =
           (check_ok lib (srv (length sent)), sent @ [req])) \<and>
    (\<exists>req. KeyAuthAdminClient_retrieve lib srv selfc ident sent =
           (check_ok lib (srv (length sent)), sent @ [req])) \<and>
    (\<exists>req. OAuth2AdminClient_retrieve lib srv selfc ident sent =
           (check_ok lib (srv (length sent)), sent @ [req])) \<and>
    (\<exists>req. ConsumerAdminClient_retrieve lib srv self name_or_id sent =
           (check_ok lib (srv (length sent)), sent @ [req])) \<and>
    (\<exists>req. PluginAdminClient_list lib srv self sent =
           (check_ok lib (srv (length sent)), sent @ [req])) \<and>
    (\<exists>req. PluginAdminClient_retrieve_schema lib srv self plugin_name sent =
           (check_ok lib (srv (length sent)), sent @ [req])) \<and>
    ((\<exists>req. APIAdminClient_update lib srv self name_or_id target_url field_map sent =
           (check_ok lib (srv (length sent)), sent @ [req])) \<or>
      (\<exists>e. APIAdminClient_update lib srv self name_or_id target_url field_map sent = (Inl e, sent))) \<and>
    ((\<exists>req. BasicAuthAdminClient_update lib srv selfc ident field_map sent =
           (check_ok lib (srv (length sent)), sent @ [req])) \<or>
      (\<exists>e. BasicAuthAdminClient_update lib srv selfc ident field_map sent = (Inl e, sent))) \<and>
    ((\<exists>req. KeyAuthAdminClient_update lib srv selfc ident field_map sent =
           (check_ok lib (srv (length sent)), sent @ [req])) \<or>
      (\<exists>e. KeyAuthAdminClient_update lib srv selfc ident field_map sent = (Inl e, sent))) \<and>
    ((\<exists>req. OAuth2AdminClient_update lib srv selfc ident field_map sent =
           (check_ok lib (srv (length sent)), sent @ [req])) \<or>
      (\<exists>e. OAuth2AdminClient_update lib srv selfc ident field_map sent = (Inl e, sent))) \<and>
    ((\<exists>req. ConsumerAdminClient_update lib srv self name_or_id field_map sent =
           (check_ok lib (srv (length sent)), sent @ [req])) \<or>
      (\<exists>e. ConsumerAdminClient_update lib srv self name_or_id field_map sent = (Inl e, sent))) \<and>
    ((\<exists>req. APIAdminClient_list lib srv self sz offset filter_fields sent =
           (check_ok lib (srv (length sent)), sent @ [req])) \<or>
      (\<exists>e. APIAdminClient_list lib srv self sz offset filter_fields sent = (Inl e, sent))) \<and>
    ((\<exists>req. APIPluginConfigurationAdminClient_list lib srv selfp sz offset filter_fields sent =
           (check_ok lib (srv (length sent)), sent @ [req])) \<or>
      (\<exists>e. APIPluginConfigurationAdminClient_list lib srv selfp sz offset filter_fields sent = (Inl e, sent))) \<and>
    ((\<exists>req. BasicAuthAdminClient_list lib srv selfc sz offset filter_fields sent =
           (check_ok lib (srv (length sent)), sent @ [req])) \<or>
      (\<exists>e. BasicAuthAdminClient_list lib srv selfc sz offset filter_fields sent = (Inl e, sent))) \<and>
    ((\<exists>req. KeyAuthAdminClient_list lib srv selfc sz offset filter_fields sent =
           (check_ok lib (srv (length sent)), sent @ [req])) \<or>
      (\<exists>e. KeyAuthAdminClient_list lib srv selfc sz offset filter_fields sent = (Inl e, sent))) \<and>
    ((\<exists>req. OAuth2AdminClient_list lib srv selfc sz offset filter_fields sent =
           (check_ok lib (srv (length sent)), sent @ [req])) \<or>
      (\<exists>e. OAuth2AdminClient_list lib srv selfc sz offset filter_fields sent = (Inl e, sent))) \<and>
    ((\<exists>req. ConsumerAdminClient_list lib srv self sz offset filter_fields sent =
           (check_ok lib (srv (length sent)), sent @ [req])) \<or>
      (\<exists>e. ConsumerAdminClient_list lib srv self sz offset filter_fields sent = (Inl e, sent))) \<and>
    (\<exists>req. APIAdminClient_count lib srv self sent =
           (count_result (srv (length sent)), sent @ [req])) \<and>
    (\<exists>req. APIPluginConfigurationAdminClient_count lib srv selfp sent =
           (count_result (srv (length sent)), sent @ [req])) \<and>
    (\<exists>req. BasicAuthAdminClient_count lib srv selfc sent =
           (count_result (srv (length sent)), sent @ [req])) \<and>
    (\<exists>req. KeyAuthAdminClient_count lib srv selfc sent =
           (count_result (srv (length sent)), sent @ [req])) \<and>
    (\<exists>req. OAuth2AdminClient_count lib srv selfc sent =
           (count_result (srv (length sent)), sent @ [req])) \<and>
    (\<exists>req. ConsumerAdminClient_count lib srv self sent =
           (count_result (srv (length sent)), sent @ [req]))"
  by (intro conjI; simp add: operation_defs send_def Let_def split: option.splits)

lemma failure_status_is_error:
  "status_code r \<noteq> CREATED \<longrightarrow> isl (check_created lib r)"
  "status_code r \<notin> {CREATED, OK} \<longrightarrow> isl (check_created_or_ok lib r)"
  "status_code r \<noteq> OK \<longrightarrow> isl (check_ok lib r)"
  by (auto simp add: check_created_def check_created_or_ok_def check_ok_def split: sum.splits)

lemma count_result_no_data:
  "json_body r = Some (PDict kvs) \<Longrightarrow> map_of kvs ''data'' = None \<Longrightarrow> count_result r = Inl TypeError"
  by (simp add: count_result_def response_json_def)

lemma count_result_with_data:
  "json_body r = Some (PDict kvs) \<Longrightarrow> map_of kvs ''data'' = Some d \<Longrightarrow> py_len d = Inr n \<Longrightarrow>
   count_result r = Inr (case map_of kvs ''total'' of None \<Rightarrow> PInt (int n) | Some t \<Rightarrow> t)"
  by (simp add: count_result_def response_json_def)

lemmas count_defs = APIAdminClient_count_def APIPluginConfigurationAdminClient_count_def
  BasicAuthAdminClient_count_def KeyAuthAdminClient_count_def OAuth2AdminClient_count_def
  ConsumerAdminClient_count_def

subsection \<open>Throttling\<close>

lemma throttle_sleep_amount:
  assumes "last_request self = Some t" and "0 < now w - t" and "now w - t < KONG_MINIMUM_REQUEST_INTERVAL cfg"
  shows "slept (snd (ThrottlingHTTPAdapter_send cfg duration self w)) = slept w @ [now w - t]"
    and "last (send_starts (snd (ThrottlingHTTPAdapter_send cfg duration self w))) = now w + (now w - t)"
  using assms
  by (simp_all add: ThrottlingHTTPAdapter_send_def HTTPAdapter_send_def sleep_def Let_def)

text \<open>
  C1. With a minimum interval of 10 seconds and connection reuse enabled, a first send
  starts at time 0 and completes at time 1; the caller sends again at time 4, when 3
  seconds have elapsed since the recorded timestamp. The claim has the caller sleep for
  the remaining 7 seconds. The adapter calls \<open>time.sleep(diff)\<close> with the elapsed time:
  it sleeps 3 seconds and the second send starts at time 7, less than 10 seconds after
  the first.
\<close>

theorem throttle_sleeps_elapsed_time:
  "(let cfg = \<lparr>KONG_MINIMUM_REQUEST_INTERVAL = 10, KONG_REUSE_CONNECTIONS = True\<rparr>;
        (s1, w1) = session_send cfg 1 None \<lparr>now = 0, slept = [], send_starts = []\<rparr>;
        (s2, w2) = session_send cfg 1 s1 (w1\<lparr>now := 4\<rparr>)
    in slept w2 = [3] \<and> send_starts w2 = [0, 7])"
  by (simp add: session_send_def session_property_def requests_session_def ThrottlingHTTPAdapter_def
      ThrottlingHTTPAdapter_send_def HTTPAdapter_send_def sleep_def Let_def)

subsection \<open>Retry\<close>

text \<open>
  C3. Every \<open>delete\<close> whose DELETE is answered with a status other than 204 and 404 on
  the first two attempts and with 204 on the third returns \<open>None\<close> after three requests;
  when all three attempts fail it raises the \<open>ValueError\<close> after three requests. Every
  other operation of every client sends at most one request per call, and its result is
  the classification of the answer to that request: an error whenever the status is not
  one the operation accepts (\<open>count\<close> alone does not test the status).
\<close>

theorem delete_retried_three_times_others_once:
  "(status_code (srv (length sent)) \<notin> {NO_CONTENT, NOT_FOUND} \<and>
     status_code (srv (Suc (length sent))) \<notin> {NO_CONTENT, NOT_FOUND} \<and>
     status_code (srv (Suc (Suc (length sent)))) = NO_CONTENT \<longrightarrow>
     (\<exists>req. APIAdminClient_delete lib srv self name_or_id sent = (Inr PNone, sent @ [req, req, req])) \<and>
     (\<exists>req. APIPluginConfigurationAdminClient_delete lib srv selfp name_or_id sent = (Inr PNone, sent @ [req, req, req])) \<and>
     (\<exists>req. BasicAuthAdminClient_delete lib srv selfc ident sent = (Inr PNone, sent @ [req, req, req])) \<and>
     (\<exists>req. KeyAuthAdminClient_delete lib srv selfc ident sent = (Inr PNone, sent @ [req, req, req])) \<and>
     (\<exists>req. OAuth2AdminClient_delete lib srv selfc ident sent = (Inr PNone, sent @ [req, req, req])) \<and>
     (\<exists>req. ConsumerAdminClient_delete lib srv self name_or_id sent = (Inr PNone, sent @ [req, req, req])))
   \<and> (status_code (srv (length sent)) \<notin> {NO_CONTENT, NOT_FOUND} \<and>
     status_code (srv (Suc (length sent))) \<notin> {NO_CONTENT, NOT_FOUND} \<and>
     status_code (srv (Suc (Suc (length sent)))) \<notin> {NO_CONTENT, NOT_FOUND} \<longrightarrow>
     (\<exists>req m. APIAdminClient_delete lib srv self name_or_id sent = (Inl (ValueError m), sent @ [req, req, req])) \<and>
     (\<exists>req m. APIPluginConfigurationAdminClient_delete lib srv selfp name_or_id sent = (Inl (ValueError m), sent @ [req, req, req])) \<and>
     (\<exists>req m. BasicAuthAdminClient_delete lib srv selfc ident sent = (Inl (ValueError m), sent @ [req, req, req])) \<and>
     (\<exists>req m. KeyAuthAdminClient_delete lib srv selfc ident sent = (Inl (ValueError m), sent @ [req, req, req])) \<and>
     (\<exists>req m. OAuth2AdminClient_delete lib srv selfc ident sent = (Inl (ValueError m), sent @ [req, req, req])) \<and>
     (\<exists>req m. ConsumerAdminClient_delete lib srv self name_or_id sent = (Inl (ValueError m), sent @ [req, req, req])))
   \<and> ((\<exists>req. APIAdminClient_add lib srv self target_url name public_dns path strip_path preserve_host sent =
           (check_created lib (srv (length sent)), sent @ [req])) \<and>
    (\<exists>req. APIPluginConfigurationAdminClient_create lib srv selfp plugin_name enabled consumer field_map sent =
           (check_created lib (srv (length sent)), sent @ [req])) \<and>
    (\<exists>req. BasicAuthAdminClient_create lib srv selfc username password sent =
           (check_created lib (srv (length sent)), sent @ [req])) \<and>
    (\<exists>req. KeyAuthAdminClient_create lib srv selfc key sent =
           (check_created lib (srv (length sent)), sent @ [req])) \<and>
    (\<exists>req. OAuth2AdminClient_create lib srv selfc name redirect_uri client_id client_secret sent =
           (check_created lib (srv (length sent)), sent @ [req])) \<and>
    (\<exists>req. ConsumerAdminClient_create lib srv self username custom_id sent =
           (check_created lib (srv (length sent)), sent @ [req])) \<and>
    (\<exists>req. APIAdminClient_add_or_update lib srv self target_url api_id name public_dns path strip_path preserve_host sent =
           (check_created_or_ok lib (srv (length sent)), sent @ [req])) \<and>
    (\<exists>req. APIPluginConfigurationAdminClient_create_or_update lib srv selfp plugin_name plugin_configuration_id enabled consumer field_map sent =
           (check_created_or_ok lib (srv (length sent)), sent @ [req])) \<and>
    (\<exists>req. BasicAuthAdminClient_create_or_update lib srv selfc basic_auth_id username password sent =
           (check_created_or_ok lib (srv (length sent)), sent @ [req])) \<and>
    (\<exists>req. KeyAuthAdminClient_create_or_update lib srv selfc key_auth_id key sent =
           (check_created_or_ok lib (srv (length sent)), sent @ [req])) \<and>
    (\<exists>req. OAuth2AdminClient_create_or_update lib srv selfc oauth2_id name redirect_uri client_id client_secret sent =
           (check_created_or_ok lib (srv (length sent)), sent @ [req])) \<and>
    (\<exists>req. ConsumerAdminClient_create_or_update lib srv self consumer username custom_id sent =
           (check_created_or_ok lib (srv (length sent)), sent @ [req])) \<and>
    (\<exists>req. APIPluginConfigurationAdminClient_update lib srv selfp plugin_name enabled consumer field_map sent =
           (check_ok lib (srv (length sent)), sent @ [req])) \<and>
    (\<exists>req. APIAdminClient_retrieve lib srv self name_or_id sent =
           (check_ok lib (srv (length sent)), sent @ [req])) \<and>
    (\<exists>req. BasicAuthAdminClient_retrieve lib srv selfc ident sent =
           (check_ok lib (srv (length sent)), sent @ [req])) \<and>
    (\<exists>req. KeyAuthAdminClient_retrieve lib srv selfc ident sent =
           (check_ok lib (srv (length sent)), sent @ [req])) \<and>
    (\<exists>req. OAuth2AdminClient_retrieve lib srv selfc ident sent =
           (check_ok lib (srv (length sent)), sent @ [req])) \<and>
    (\<exists>req. ConsumerAdminClient_retrieve lib srv self name_or_id sent =
           (check_ok lib (srv (length sent)), sent @ [req])) \<and>
    (\<exists>req. PluginAdminClient_list lib srv self sent =
           (check_ok lib (srv (length sent)), sent @ [req])) \<and>
    (\<exists>req. PluginAdminClient_retrieve_schema lib srv self plugin_name sent =
           (check_ok lib (srv (length sent)), sent @ [req])) \<and>
    ((\<exists>req. APIAdminClient_update lib srv self name_or_id target_url field_map sent =
           (check_ok lib (srv (length sent)), sent @ [req])) \<or>
      (\<exists>e. APIAdminClient_update lib srv self name_or_id target_url field_map sent = (Inl e, sent))) \<and>
    ((\<exists>req. BasicAuthAdminClient_update lib srv selfc ident field_map sent =
           (check_ok lib (srv (length sent)), sent @ [req])) \<or>
      (\<exists>e. BasicAuthAdminClient_update lib srv selfc ident field_map sent = (Inl e, sent))) \<and>
    ((\<exists>req. KeyAuthAdminClient_update lib srv selfc ident field_map sent =
           (check_ok lib (srv (length sent)), sent @ [req])) \<or>
      (\<exists>e. KeyAuthAdminClient_update lib srv selfc ident field_map sent = (Inl e, sent))) \<and>
    ((\<exists>req. OAuth2AdminClient_update lib srv selfc ident field_map sent =
           (check_ok lib (srv (length sent)), sent @ [req])) \<or>
      (\<exists>e. OAuth2AdminClient_update lib srv selfc ident field_map sent = (Inl e, sent))) \<and>
    ((\<exists>req. ConsumerAdminClient_update lib srv self name_or_id field_map sent =
           (check_ok lib (srv (length sent)), sent @ [req])) \<or>
      (\<exists>e. ConsumerAdminClient_update lib srv self name_or_id field_map sent = (Inl e, sent))) \<and>
    ((\<exists>req. APIAdminClient_list lib srv self sz offset filter_fields sent =
           (check_ok lib (srv (length sent)), sent @ [req])) \<or>
      (\<exists>e. APIAdminClient_list lib srv self sz offset filter_fields sent = (Inl e, sent))) \<and>
    ((\<exists>req. APIPluginConfigurationAdminClient_list lib srv selfp sz offset filter_fields sent =
           (check_ok lib (srv (length sent)), sent @ [req])) \<or>
      (\<exists>e. APIPluginConfigurationAdminClient_list lib srv selfp sz offset filter_fields sent = (Inl e, sent))) \<and>
    ((\<exists>req. BasicAuthAdminClient_list lib srv selfc sz offset filter_fields sent =
           (check_ok lib (srv (length sent)), sent @ [req])) \<or>
      (\<exists>e. BasicAuthAdminClient_list lib srv selfc sz offset filter_fields sent = (Inl e, sent))) \<and>
    ((\<exists>req. KeyAuthAdminClient_list lib srv selfc sz offset filter_fields sent =
           (check_ok lib (srv (length sent)), sent @ [req])) \<or>
      (\<exists>e. KeyAuthAdminClient_list lib srv selfc sz offset filter_fields sent = (Inl e, sent))) \<and>
    ((\<exists>req. OAuth2AdminClient_list lib srv selfc sz offset filter_fields sent =
           (check_ok lib (srv (length sent)), sent @ [req])) \<or>
      (\<exists>e. OAuth2AdminClient_list lib srv selfc sz offset filter_fields sent = (Inl e, sent))) \<and>
    ((\<exists>req. ConsumerAdminClient_list lib srv self sz offset filter_fields sent =
           (check_ok lib (srv (length sent)), sent @ [req])) \<or>
      (\<exists>e. ConsumerAdminClient_list lib srv self sz offset filter_fields sent = (Inl e, sent))) \<and>
    (\<exists>req. APIAdminClient_count lib srv self sent =
           (count_result (srv (length sent)), sent @ [req])) \<and>
    (\<exists>req. APIPluginConfigurationAdminClient_count lib srv selfp sent =
           (count_result (srv (length sent)), sent @ [req])) \<and>
    (\<exists>req. BasicAuthAdminClient_count lib srv selfc sent =
           (count_result (srv (length sent)), sent @ [req])) \<and>
    (\<exists>req. KeyAuthAdminClient_count lib srv selfc sent =
           (count_result (srv (length sent)), sent @ [req])) \<and>
    (\<exists>req. OAuth2AdminClient_count lib srv selfc sent =
           (count_result (srv (length sent)), sent @ [req])) \<and>
    (\<exists>req. ConsumerAdminClient_count lib srv self sent =
           (count_result (srv (length sent)), sent @ [req])))
   \<and> (status_code r \<noteq> CREATED \<longrightarrow> isl (check_created lib r))
   \<and> (status_code r \<notin> {CREATED, OK} \<longrightarrow> isl (check_created_or_ok lib r))
   \<and> (status_code r \<noteq> OK \<longrightarrow> isl (check_ok lib r))"
proof -
  have A: "status_code (srv (length sent)) \<notin> {NO_CONTENT, NOT_FOUND} \<and>
     status_code (srv (Suc (length sent))) \<notin> {NO_CONTENT, NOT_FOUND} \<and>
     status_code (srv (Suc (Suc (length sent)))) = NO_CONTENT \<longrightarrow>
     (\<exists>req. APIAdminClient_delete lib srv self name_or_id sent = (Inr PNone, sent @ [req, req, req])) \<and>
     (\<exists>req. APIPluginConfigurationAdminClient_delete lib srv selfp name_or_id sent = (Inr PNone, sent @ [req, req, req])) \<and>
     (\<exists>req. BasicAuthAdminClient_delete lib srv selfc ident sent = (Inr PNone, sent @ [req, req, req])) \<and>
     (\<exists>req. KeyAuthAdminClient_delete lib srv selfc ident sent = (Inr PNone, sent @ [req, req, req])) \<and>
     (\<exists>req. OAuth2AdminClient_delete lib srv selfc ident sent = (Inr PNone, sent @ [req, req, req])) \<and>
     (\<exists>req. ConsumerAdminClient_delete lib srv self name_or_id sent = (Inr PNone, sent @ [req, req, req]))"
    using delete_succeeds_on_third_attempt [of srv sent lib self name_or_id selfp selfc ident] by blast
  have B: "status_code (srv (length sent)) \<notin> {NO_CONTENT, NOT_FOUND} \<and>
     status_code (srv (Suc (length sent))) \<notin> {NO_CONTENT, NOT_FOUND} \<and>
     status_code (srv (Suc (Suc (length sent)))) \<notin> {NO_CONTENT, NOT_FOUND} \<longrightarrow>
     (\<exists>req m. APIAdminClient_delete lib srv self name_or_id sent = (Inl (ValueError m), sent @ [req, req, req])) \<and>
     (\<exists>req m. APIPluginConfigurationAdminClient_delete lib srv selfp name_or_id sent = (Inl (ValueError m), sent @ [req, req, req])) \<and>
     (\<exists>req m. BasicAuthAdminClient_delete lib srv selfc ident sent = (Inl (ValueError m), sent @ [req, req, req])) \<and>
     (\<exists>req m. KeyAuthAdminClient_delete lib srv selfc ident sent = (Inl (ValueError m), sent @ [req, req, req])) \<and>
     (\<exists>req m. OAuth2AdminClient_delete lib srv selfc ident sent = (Inl (ValueError m), sent @ [req, req, req])) \<and>
     (\<exists>req m. ConsumerAdminClient_delete lib srv self name_or_id sent = (Inl (ValueError m), sent @ [req, req, req]))"
    using delete_fails_after_three_attempts [of srv sent lib self name_or_id selfp selfc ident] by blast
  show ?thesis
    by (rule conjI [OF A], rule conjI [OF B], rule conjI [OF one_request_per_call])
      (simp add: failure_status_is_error)
qed

theorem delete_retried_three_times_others_once_witness:
  "fst (APIAdminClient_delete \<lparr>resolve = (\<lambda>b u. b @ u), quote = (\<lambda>s. s), repr_container = (\<lambda>v. [])\<rparr>
          (\<lambda>n. if n < 2 then \<lparr>status_code = 500, json_body = None, text_body = []\<rparr>
                else \<lparr>status_code = 204, json_body = None, text_body = []\<rparr>)
          \<lparr>api_url = ''http://kong:8001'', headers = []\<rparr> ''svc'' []) = Inr PNone
   \<and> fst (APIAdminClient_delete \<lparr>resolve = (\<lambda>b u. b @ u), quote = (\<lambda>s. s), repr_container = (\<lambda>v. [])\<rparr>
          (\<lambda>n. \<lparr>status_code = 500, json_body = None, text_body = []\<rparr>)
          \<lparr>api_url = ''http://kong:8001'', headers = []\<rparr> ''svc'' []) = Inl (ValueError ''Could not delete API (status: 500): svc'')
   \<and> isl (check_created \<lparr>resolve = (\<lambda>b u. b @ u), quote = (\<lambda>s. s), repr_container = (\<lambda>v. [])\<rparr> \<lparr>status_code = 500, json_body = Some (PDict []), text_body = []\<rparr>)"
proof -
  let ?lib = "\<lparr>resolve = (\<lambda>b u. b @ u), quote = (\<lambda>s. s), repr_container = (\<lambda>v. [])\<rparr>"
  let ?self = "\<lparr>api_url = ''http://kong:8001'', headers = []\<rparr>"
  let ?selfp = "\<lparr>api_url = ''http://kong:8001'', headers = [], self_api_name_or_id = ''svc''\<rparr>"
  let ?selfc = "\<lparr>api_url = ''http://kong:8001'', headers = [], self_consumer_id = ''alice''\<rparr>"
  let ?srv1 = "\<lambda>n::nat. if n < 2 then \<lparr>status_code = 500, json_body = None, text_body = []\<rparr>
                else \<lparr>status_code = 204, json_body = None, text_body = []\<rparr>"
  let ?srv2 = "\<lambda>n::nat. \<lparr>status_code = 500, json_body = None, text_body = []\<rparr>"
  have a: "fst (APIAdminClient_delete ?lib ?srv1 ?self ''svc'' []) = Inr PNone"
    using delete_retried_three_times_others_once
      [where srv = ?srv1 and sent = "[]" and lib = ?lib and self = ?self and name_or_id = "''svc''"
         and selfp = ?selfp and selfc = ?selfc and ident = "''svc''", THEN conjunct1]
    by (auto simp add: NO_CONTENT_def NOT_FOUND_def)
  obtain req m where b: "APIAdminClient_delete ?lib ?srv2 ?self ''svc'' [] = (Inl (ValueError m), [req, req, req])"
    using delete_retried_three_times_others_once
      [where srv = ?srv2 and sent = "[]" and lib = ?lib and self = ?self and name_or_id = "''svc''"
         and selfp = ?selfp and selfc = ?selfc and ident = "''svc''", THEN conjunct2, THEN conjunct1]
    by (auto simp add: NO_CONTENT_def NOT_FOUND_def)
  have body: "\<And>sent. APIAdminClient_delete_body ?lib ?srv2 ?self ''svc'' sent =
      (check_deleted (\<lambda>status. ''Could not delete API (status: '' @ str_nat status @ ''): '' @ ''svc'') (?srv2 (length sent)),
       sent @ [\<lparr>req_method = DELETE, req_url = get_url ?lib ?self [''apis'', ''svc''] [],
                req_data = [], req_headers = get_headers ?self []\<rparr>])"
    by (simp add: APIAdminClient_delete_body_def send_def)
  have "fst (APIAdminClient_delete ?lib ?srv2 ?self ''svc'' []) = Inl (ValueError ''Could not delete API (status: 500): svc'')"
    unfolding APIAdminClient_delete_def
    by (subst retry_three_failures [OF body]) (simp_all add: NO_CONTENT_def NOT_FOUND_def str_nat_500)
  moreover have "isl (check_created ?lib \<lparr>status_code = 500, json_body = Some (PDict []), text_body = []\<rparr>)"
    using delete_retried_three_times_others_once
      [where lib = ?lib and r = "\<lparr>status_code = 500, json_body = Some (PDict []), text_body = []\<rparr>",
        THEN conjunct2, THEN conjunct2, THEN conjunct2, THEN conjunct1]
    by (simp add: CREATED_def)
  ultimately show ?thesis using a by simp
qed

subsection \<open>Deleting\<close>

text \<open>
  C4. The plugin configuration client is nested under an API, here \<open>myapi\<close>. Its
  \<open>delete\<close> of \<open>rate-limiting\<close>, answered with 500 on every attempt, raises a
  \<open>ValueError\<close> whose message names the plugin and not the parent API, where the
  three clients nested under a consumer add \<open>for Consumer: ...\<close> to theirs.
\<close>

theorem plugin_configuration_delete_message_lacks_parent:
  "fst (APIPluginConfigurationAdminClient_delete lib
          (\<lambda>n. \<lparr>status_code = 500, json_body = None, text_body = []\<rparr>)
          (selfp\<lparr>self_api_name_or_id := ''myapi''\<rparr>) ''rate-limiting'' [])
     = Inl (ValueError ''Could not delete Plugin Configuration (status: 500): rate-limiting'')
   \<and> \<not> sublist ''myapi'' ''Could not delete Plugin Configuration (status: 500): rate-limiting''"
proof -
  let ?srv = "\<lambda>n::nat. \<lparr>status_code = 500, json_body = None, text_body = []\<rparr>"
  let ?self = "selfp\<lparr>self_api_name_or_id := ''myapi''\<rparr>"
  have body: "\<And>sent. APIPluginConfigurationAdminClient_delete_body lib ?srv ?self ''rate-limiting'' sent
     = (check_deleted (\<lambda>status. ''Could not delete Plugin Configuration (status: '' @ str_nat status @ ''): '' @ ''rate-limiting'')
          (?srv (length sent)),
        sent @ [\<lparr>req_method = DELETE,
                 req_url = get_url lib ?self [''apis'', ''myapi'', ''plugins'', ''rate-limiting''] [],
                 req_data = [], req_headers = get_headers ?self []\<rparr>])"
    by (simp add: APIPluginConfigurationAdminClient_delete_body_def send_def)
  have "fst (APIPluginConfigurationAdminClient_delete lib ?srv ?self ''rate-limiting'' [])
     = Inl (ValueError ''Could not delete Plugin Configuration (status: 500): rate-limiting'')"
    unfolding APIPluginConfigurationAdminClient_delete_def
    by (subst retry_three_failures [OF body]) (simp_all add: NO_CONTENT_def NOT_FOUND_def str_nat_500)
  moreover have "\<not> sublist ''myapi'' ''Could not delete Plugin Configuration (status: 500): rate-limiting''"
    by code_simp
  ultimately show ?thesis by simp
qed

subsection \<open>Counting\<close>

text \<open>
  C7. A list answer that carries \<open>total\<close> and no \<open>data\<close>, here \<open>{"total": 5}\<close> with
  status 200: the claim has \<open>count\<close> return 5. The code evaluates
  \<open>len(result.get('data'))\<close>, that is \<open>len(None)\<close>, before it looks \<open>total\<close> up, and
  raises \<open>TypeError\<close>.
\<close>

theorem count_with_total_and_no_data_raises:
  "fst (APIAdminClient_count lib
          (\<lambda>n. \<lparr>status_code = 200, json_body = Some (PDict [(''total'', PInt 5)]), text_body = ''{total: 5}''\<rparr>)
          self []) = Inl TypeError"
  by (simp add: APIAdminClient_count_def split_def send_fst count_result_def response_json_def)

text \<open>
  C10. Whenever the decoded body of the answer is an object without a \<open>data\<close> key,
  \<open>count\<close> raises \<open>TypeError\<close> on every client, whether or not \<open>total\<close> is present.
\<close>

theorem count_raises_without_data:
  assumes "json_body (srv (length sent)) = Some (PDict kvs)" and "map_of kvs ''data'' = None"
  shows "fst (APIAdminClient_count lib srv self sent) = Inl TypeError
       \<and> fst (APIPluginConfigurationAdminClient_count lib srv selfp sent) = Inl TypeError
       \<and> fst (BasicAuthAdminClient_count lib srv selfc sent) = Inl TypeError
       \<and> fst (KeyAuthAdminClient_count lib srv selfc sent) = Inl TypeError
       \<and> fst (OAuth2AdminClient_count lib srv selfc sent) = Inl TypeError
       \<and> fst (ConsumerAdminClient_count lib srv self sent) = Inl TypeError"
  using count_result_no_data [OF assms]
  by (simp add: count_defs split_def send_fst)

theorem count_raises_without_data_witness:
  "fst (APIAdminClient_count \<lparr>resolve = (\<lambda>b u. b @ u), quote = (\<lambda>s. s), repr_container = (\<lambda>v. [])\<rparr>
          (\<lambda>n. \<lparr>status_code = 200, json_body = Some (PDict [(''total'', PInt 5)]), text_body = []\<rparr>)
          \<lparr>api_url = ''http://kong:8001'', headers = []\<rparr> []) = Inl TypeError"
  using count_raises_without_data
    [of "(\<lambda>n. \<lparr>status_code = 200, json_body = Some (PDict [(''total'', PInt 5)]), text_body = []\<rparr>)"
      "[]" "[(''total'', PInt 5)]"]
  by simp

subsection \<open>Listing\<close>

text \<open>
  C9. \<open>APIAdminClient.list(size=100, offset=0)\<close>: the offset 0 is not \<open>None\<close>, and the
  claim has it sent as a query parameter. The method tests \<open>if offset:\<close>, so the URL
  requested is built from \<open>size\<close> alone. The plugin configuration client, which tests
  \<open>if offset is not None:\<close>, sends it.
\<close>

theorem list_drops_offset_zero:
  "APIAdminClient_list lib srv self (PInt 100) (PInt 0) [] [] =
     (check_ok lib (srv 0),
      [\<lparr>req_method = GET, req_url = get_url lib self [''apis''] [(''size'', PInt 100)],
        req_data = [], req_headers = get_headers self []\<rparr>])
   \<and> APIPluginConfigurationAdminClient_list lib srv selfp (PInt 100) (PInt 0) [] [] =
     (check_ok lib (srv 0),
      [\<lparr>req_method = GET,
        req_url = get_url lib selfp [''apis'', self_api_name_or_id selfp, ''plugins'']
                    [(''size'', PInt 100), (''offset'', PInt 0)],
        req_data = [], req_headers = get_headers selfp []\<rparr>])"
  by (simp add: APIAdminClient_list_def APIPluginConfigurationAdminClient_list_def assert_dict_keys_in_def send_def)

subsection \<open>Error messages\<close>

lemma str_nat_409: "str_nat 409 = ''409''"
  by code_simp

lemma raise_response_error_json:
  "json_body r = Some (PDict kvs) \<Longrightarrow>
   raise_response_error lib r cls True =
     construct (case cls of None \<Rightarrow> ValueErrorClass | Some c \<Rightarrow> c)
       (join '', '' (map (\<lambda>(key, value). key @ '': '' @ py_str lib value) kvs))"
  by (simp add: raise_response_error_def response_json_def)

lemma raise_response_error_undecodable:
  "json_body r = None \<Longrightarrow> raise_response_error lib r cls True = JSONDecodeError"
  by (simp add: raise_response_error_def response_json_def)

lemma raise_response_error_not_json:
  "raise_response_error lib r cls False =
     construct (case cls of None \<Rightarrow> ValueErrorClass | Some c \<Rightarrow> c) (response_str r)"
  by (simp add: raise_response_error_def)

lemma checks_undecodable:
  "json_body r = None \<Longrightarrow>
   check_created lib r = Inl JSONDecodeError \<and> check_created_or_ok lib r = Inl JSONDecodeError \<and>
   check_ok lib r = Inl JSONDecodeError"
  by (simp add: check_created_def check_created_or_ok_def check_ok_def response_json_def)

lemma checks_conflict:
  "status_code r = CONFLICT \<Longrightarrow> json_body r = Some (PDict kvs) \<Longrightarrow>
   check_created lib r = Inl (ConflictError (join '', '' (map (\<lambda>(key, value). key @ '': '' @ py_str lib value) kvs))) \<and>
   check_created_or_ok lib r = Inl (ConflictError (join '', '' (map (\<lambda>(key, value). key @ '': '' @ py_str lib value) kvs)))"
  by (simp add: check_created_def check_created_or_ok_def response_json_def raise_response_error_def construct_def)

lemma checks_failure:
  "json_body r = Some (PDict kvs) \<Longrightarrow>
   (status_code r \<notin> {CREATED, CONFLICT} \<longrightarrow>
      check_created lib r = Inl (ValueError (join '', '' (map (\<lambda>(key, value). key @ '': '' @ py_str lib value) kvs)))) \<and>
   (status_code r \<notin> {CREATED, OK, CONFLICT} \<longrightarrow>
      check_created_or_ok lib r = Inl (ValueError (join '', '' (map (\<lambda>(key, value). key @ '': '' @ py_str lib value) kvs)))) \<and>
   (status_code r \<noteq> OK \<longrightarrow>
      check_ok lib r = Inl (ValueError (join '', '' (map (\<lambda>(key, value). key @ '': '' @ py_str lib value) kvs))))"
  by (simp add: check_created_def check_created_or_ok_def check_ok_def response_json_def raise_response_error_def construct_def)

lemma check_deleted_failure:
  "status_code r \<notin> {NO_CONTENT, NOT_FOUND} \<Longrightarrow>
   check_deleted message r = Inl (ValueError (message (status_code r)))"
  by (simp add: check_deleted_def)

lemma delete_body_results:
  "fst (APIAdminClient_delete_body lib srv self name_or_id sent) =
      check_deleted (\<lambda>status. ''Could not delete API (status: '' @ str_nat status @ ''): '' @ name_or_id)
        (srv (length sent)) \<and>
    fst (APIPluginConfigurationAdminClient_delete_body lib srv selfp name_or_id sent) =
      check_deleted (\<lambda>status. ''Could not delete Plugin Configuration (status: '' @ str_nat status @ ''): '' @ name_or_id)
        (srv (length sent)) \<and>
    fst (BasicAuthAdminClient_delete_body lib srv selfc ident sent) =
      check_deleted (\<lambda>status. ''Could not delete Basic Auth (status: '' @ str_nat status @ ''): '' @ ident @
           '' for Consumer: '' @ self_consumer_id selfc)
        (srv (length sent)) \<and>
    fst (KeyAuthAdminClient_delete_body lib srv selfc ident sent) =
      check_deleted (\<lambda>status. ''Could not delete Key Auth (status: '' @ str_nat status @ ''): '' @ ident @
           '' for Consumer: '' @ self_consumer_id selfc)
        (srv (length sent)) \<and>
    fst (OAuth2AdminClient_delete_body lib srv selfc ident sent) =
      check_deleted (\<lambda>status. ''Could not delete OAuth2 (status: '' @ str_nat status @ ''): '' @ ident @
           '' for Consumer: '' @ self_consumer_id selfc)
        (srv (length sent)) \<and>
    fst (ConsumerAdminClient_delete_body lib srv self name_or_id sent) =
      check_deleted (\<lambda>status. ''Could not delete Consumer (status: '' @ str_nat status @ ''): '' @ name_or_id)
        (srv (length sent))"
  by (intro conjI; simp add: delete_body_defs send_def)

lemma retry_three_failures_fst:
  assumes "\<And>sent. body sent = (check_deleted msg (srv (length sent)), sent @ [req])"
    and "status_code (srv (length sent)) \<notin> {NO_CONTENT, NOT_FOUND}"
    and "status_code (srv (Suc (length sent))) \<notin> {NO_CONTENT, NOT_FOUND}"
    and "status_code (srv (Suc (Suc (length sent)))) \<notin> {NO_CONTENT, NOT_FOUND}"
  shows "fst (on_exception 3 0 body sent) = Inl (ValueError (msg (status_code (srv (Suc (Suc (length sent)))))))"
  using retry_three_failures [OF assms] by simp

lemma delete_failure_messages:
  assumes "status_code (srv (length sent)) \<notin> {NO_CONTENT, NOT_FOUND}"
    and "status_code (srv (Suc (length sent))) \<notin> {NO_CONTENT, NOT_FOUND}"
    and "status_code (srv (Suc (Suc (length sent)))) \<notin> {NO_CONTENT, NOT_FOUND}"
  shows "fst (APIAdminClient_delete lib srv self name_or_id sent) =
      Inl (ValueError (''Could not delete API (status: '' @ str_nat (status_code (srv (Suc (Suc (length sent))))) @ ''): '' @ name_or_id)) \<and>
    fst (APIPluginConfigurationAdminClient_delete lib srv selfp name_or_id sent) =
      Inl (ValueError (''Could not delete Plugin Configuration (status: '' @ str_nat (status_code (srv (Suc (Suc (length sent))))) @ ''): '' @ name_or_id)) \<and>
    fst (BasicAuthAdminClient_delete lib srv selfc ident sent) =
      Inl (ValueError (''Could not delete Basic Auth (status: '' @ str_nat (status_code (srv (Suc (Suc (length sent))))) @ ''): '' @ ident @
           '' for Consumer: '' @ self_consumer_id selfc)) \<and>
    fst (KeyAuthAdminClient_delete lib srv selfc ident sent) =
      Inl (ValueError (''Could not delete Key Auth (status: '' @ str_nat (status_code (srv (Suc (Suc (length sent))))) @ ''): '' @ ident @
           '' for Consumer: '' @ self_consumer_id selfc)) \<and>
    fst (OAuth2AdminClient_delete lib srv selfc ident sent) =
      Inl (ValueError (''Could not delete OAuth2 (status: '' @ str_nat (status_code (srv (Suc (Suc (length sent))))) @ ''): '' @ ident @
           '' for Consumer: '' @ self_consumer_id selfc)) \<and>
    fst (ConsumerAdminClient_delete lib srv self name_or_id sent) =
      Inl (ValueError (''Could not delete Consumer (status: '' @ str_nat (status_code (srv (Suc (Suc (length sent))))) @ ''): '' @ name_or_id))"
proof -
  have m0: "fst (APIAdminClient_delete lib srv self name_or_id sent) =
      Inl (ValueError (''Could not delete API (status: '' @ str_nat (status_code (srv (Suc (Suc (length sent))))) @ ''): '' @ name_or_id))"
    unfolding APIAdminClient_delete_def
    by (rule retry_three_failures_fst
          [where srv = srv and msg = "\<lambda>status. ''Could not delete API (status: '' @ str_nat status @ ''): '' @ name_or_id"],
        simp add: APIAdminClient_delete_body_def send_def, (rule assms)+)
  have m1: "fst (APIPluginConfigurationAdminClient_delete lib srv selfp name_or_id sent) =
      Inl (ValueError (''Could not delete Plugin Configuration (status: '' @ str_nat (status_code (srv (Suc (Suc (length sent))))) @ ''): '' @ name_or_id))"
    unfolding APIPluginConfigurationAdminClient_delete_def
    by (rule retry_three_failures_fst
          [where srv = srv and msg = "\<lambda>status. ''Could not delete Plugin Configuration (status: '' @ str_nat status @ ''): '' @ name_or_id"],
        simp add: APIPluginConfigurationAdminClient_delete_body_def send_def, (rule assms)+)
  have m2: "fst (BasicAuthAdminClient_delete lib srv selfc ident sent) =
      Inl (ValueError (''Could not delete Basic Auth (status: '' @ str_nat (status_code (srv (Suc (Suc (length sent))))) @ ''): '' @ ident @
           '' for Consumer: '' @ self_consumer_id selfc))"
    unfolding BasicAuthAdminClient_delete_def
    by (rule retry_three_failures_fst
          [where srv = srv and msg = "\<lambda>status. ''Could not delete Basic Auth (status: '' @ str_nat status @ ''): '' @ ident @
           '' for Consumer: '' @ self_consumer_id selfc"],
        simp add: BasicAuthAdminClient_delete_body_def send_def, (rule assms)+)
  have m3: "fst (KeyAuthAdminClient_delete lib srv selfc ident sent) =
      Inl (ValueError (''Could not delete Key Auth (status: '' @ str_nat (status_code (srv (Suc (Suc (length sent))))) @ ''): '' @ ident @
           '' for Consumer: '' @ self_consumer_id selfc))"
    unfolding KeyAuthAdminClient_delete_def
    by (rule retry_three_failures_fst
          [where srv = srv and msg = "\<lambda>status. ''Could not delete Key Auth (status: '' @ str_nat status @ ''): '' @ ident @
           '' for Consumer: '' @ self_consumer_id selfc"],
        simp add: KeyAuthAdminClient_delete_body_def send_def, (rule assms)+)
  have m4: "fst (OAuth2AdminClient_delete lib srv selfc ident sent) =
      Inl (ValueError (''Could not delete OAuth2 (status: '' @ str_nat (status_code (srv (Suc (Suc (length sent))))) @ ''): '' @ ident @
           '' for Consumer: '' @ self_consumer_id selfc))"
    unfolding OAuth2AdminClient_delete_def
    by (rule retry_three_failures_fst
          [where srv = srv and msg = "\<lambda>status. ''Could not delete OAuth2 (status: '' @ str_nat status @ ''): '' @ ident @
           '' for Consumer: '' @ self_consumer_id selfc"],
        simp add: OAuth2AdminClient_delete_body_def send_def, (rule assms)+)
  have m5: "fst (ConsumerAdminClient_delete lib srv self name_or_id sent) =
      Inl (ValueError (''Could not delete Consumer (status: '' @ str_nat (status_code (srv (Suc (Suc (length sent))))) @ ''): '' @ name_or_id))"
    unfolding ConsumerAdminClient_delete_def
    by (rule retry_three_failures_fst
          [where srv = srv and msg = "\<lambda>status. ''Could not delete Consumer (status: '' @ str_nat status @ ''): '' @ name_or_id"],
        simp add: ConsumerAdminClient_delete_body_def send_def, (rule assms)+)
  show ?thesis
    by (rule conjI [OF m0], rule conjI [OF m1], rule conjI [OF m2], rule conjI [OF m3], rule conjI [OF m4], rule m5)
qed

text \<open>
  C2, as amended. The operations that read the body are \<open>create\<close>, \<open>create_or_update\<close>,
  \<open>update\<close>, \<open>retrieve\<close> and \<open>list\<close>. When one of them classifies a response as conflict
  (409) or as a generic failure and the body decodes to a JSON object, the error raised
  carries the \<open>key: value\<close> renderings of the object's fields joined by \<open>, \<close>. When the
  body cannot be decoded, the decoding error itself leaves the call: every one of these
  methods decodes the body before it tests the status, and \<open>raise_response_error\<close>
  decodes it again. The other branch of \<open>raise_response_error\<close> is taken only when the
  caller passes \<open>is_json=False\<close>, and its message is \<open>str(response)\<close>, not the text of
  the body. The generic failure of \<open>delete\<close> never reads the body: its message is the
  fixed text with the status code and the identifier, whatever the body is, and after
  three failed attempts it carries the status of the third. The groups of conjuncts on
  the methods tie every method of every client to the classification it applies.
\<close>

theorem error_message_is_joined_json_fields:
  "(json_body r = Some (PDict kvs) \<longrightarrow>
      raise_response_error lib r cls True = construct (case cls of None \<Rightarrow> ValueErrorClass | Some c \<Rightarrow> c)
        (join '', '' (map (\<lambda>(key, value). key @ '': '' @ py_str lib value) kvs)))
   \<and> (json_body r = Some (PDict kvs) \<and> status_code r = CONFLICT \<longrightarrow>
      check_created lib r = Inl (ConflictError (join '', '' (map (\<lambda>(key, value). key @ '': '' @ py_str lib value) kvs))) \<and>
      check_created_or_ok lib r = Inl (ConflictError (join '', '' (map (\<lambda>(key, value). key @ '': '' @ py_str lib value) kvs))))
   \<and> (json_body r = Some (PDict kvs) \<and> status_code r \<notin> {CREATED, CONFLICT} \<longrightarrow>
      check_created lib r = Inl (ValueError (join '', '' (map (\<lambda>(key, value). key @ '': '' @ py_str lib value) kvs))))
   \<and> (json_body r = Some (PDict kvs) \<and> status_code r \<notin> {CREATED, OK, CONFLICT} \<longrightarrow>
      check_created_or_ok lib r = Inl (ValueError (join '', '' (map (\<lambda>(key, value). key @ '': '' @ py_str lib value) kvs))))
   \<and> (json_body r = Some (PDict kvs) \<and> status_code r \<noteq> OK \<longrightarrow>
      check_ok lib r = Inl (ValueError (join '', '' (map (\<lambda>(key, value). key @ '': '' @ py_str lib value) kvs))))
   \<and> (json_body r = None \<longrightarrow>
      raise_response_error lib r cls True = JSONDecodeError \<and>
      check_created lib r = Inl JSONDecodeError \<and> check_created_or_ok lib r = Inl JSONDecodeError \<and>
      check_ok lib r = Inl JSONDecodeError)
   \<and> raise_response_error lib r cls False = construct (case cls of None \<Rightarrow> ValueErrorClass | Some c \<Rightarrow> c) (response_str r)
   \<and> (status_code r \<notin> {NO_CONTENT, NOT_FOUND} \<longrightarrow>
      check_deleted message r = Inl (ValueError (message (status_code r))))
   \<and> (fst (APIAdminClient_delete_body lib srv self name_or_id sent) =
      check_deleted (\<lambda>status. ''Could not delete API (status: '' @ str_nat status @ ''): '' @ name_or_id)
        (srv (length sent)) \<and>
    fst (APIPluginConfigurationAdminClient_delete_body lib srv selfp name_or_id sent) =
      check_deleted (\<lambda>status. ''Could not delete Plugin Configuration (status: '' @ str_nat status @ ''): '' @ name_or_id)
        (srv (length sent)) \<and>
    fst (BasicAuthAdminClient_delete_body lib srv selfc ident sent) =
      check_deleted (\<lambda>status. ''Could not delete Basic Auth (status: '' @ str_nat status @ ''): '' @ ident @
           '' for Consumer: '' @ self_consumer_id selfc)
        (srv (length sent)) \<and>
    fst (KeyAuthAdminClient_delete_body lib srv selfc ident sent) =
      check_deleted (\<lambda>status. ''Could not delete Key Auth (status: '' @ str_nat status @ ''): '' @ ident @
           '' for Consumer: '' @ self_consumer_id selfc)
        (srv (length sent)) \<and>
    fst (OAuth2AdminClient_delete_body lib srv selfc ident sent) =
      check_deleted (\<lambda>status. ''Could not delete OAuth2 (status: '' @ str_nat status @ ''): '' @ ident @
           '' for Consumer: '' @ self_consumer_id selfc)
        (srv (length sent)) \<and>
    fst (ConsumerAdminClient_delete_body lib srv self name_or_id sent) =
      check_deleted (\<lambda>status. ''Could not delete Consumer (status: '' @ str_nat status @ ''): '' @ name_or_id)
        (srv (length sent)))
   \<and> (status_code (srv (length sent)) \<notin> {NO_CONTENT, NOT_FOUND} \<and>
    status_code (srv (Suc (length sent))) \<notin> {NO_CONTENT, NOT_FOUND} \<and>
    status_code (srv (Suc (Suc (length sent)))) \<notin> {NO_CONTENT, NOT_FOUND} \<longrightarrow>
    fst (APIAdminClient_delete lib srv self name_or_id sent) =
      Inl (ValueError (''Could not delete API (status: '' @ str_nat (status_code (srv (Suc (Suc (length sent))))) @ ''): '' @ name_or_id)) \<and>
    fst (APIPluginConfigurationAdminClient_delete lib srv selfp name_or_id sent) =
      Inl (ValueError (''Could not delete Plugin Configuration (status: '' @ str_nat (status_code (srv (Suc (Suc (length sent))))) @ ''): '' @ name_or_id)) \<and>
    fst (BasicAuthAdminClient_delete lib srv selfc ident sent) =
      Inl (ValueError (''Could not delete Basic Auth (status: '' @ str_nat (status_code (srv (Suc (Suc (length sent))))) @ ''): '' @ ident @
           '' for Consumer: '' @ self_consumer_id selfc)) \<and>
    fst (KeyAuthAdminClient_delete lib srv selfc ident sent) =
      Inl (ValueError (''Could not delete Key Auth (status: '' @ str_nat (status_code (srv (Suc (Suc (length sent))))) @ ''): '' @ ident @
           '' for Consumer: '' @ self_consumer_id selfc)) \<and>
    fst (OAuth2AdminClient_delete lib srv selfc ident sent) =
      Inl (ValueError (''Could not delete OAuth2 (status: '' @ str_nat (status_code (srv (Suc (Suc (length sent))))) @ ''): '' @ ident @
           '' for Consumer: '' @ self_consumer_id selfc)) \<and>
    fst (ConsumerAdminClient_delete lib srv self name_or_id sent) =
      Inl (ValueError (''Could not delete Consumer (status: '' @ str_nat (status_code (srv (Suc (Suc (length sent))))) @ ''): '' @ name_or_id)))
   \<and> ((\<exists>req. APIAdminClient_add lib srv self target_url name public_dns path strip_path preserve_host sent =
           (check_created lib (srv (length sent)), sent @ [req])) \<and>
    (\<exists>req. APIPluginConfigurationAdminClient_create lib srv selfp plugin_name enabled consumer field_map sent =
           (check_created lib (srv (length sent)), sent @ [req])) \<and>
    (\<exists>req. BasicAuthAdminClient_create lib srv selfc username password sent =
           (check_created lib (srv (length sent)), sent @ [req])) \<and>
    (\<exists>req. KeyAuthAdminClient_create lib srv selfc key sent =
           (check_created lib (srv (length sent)), sent @ [req])) \<and>
    (\<exists>req. OAuth2AdminClient_create lib srv selfc name redirect_uri client_id client_secret sent =
           (check_created lib (srv (length sent)), sent @ [req])) \<and>
    (\<exists>req. ConsumerAdminClient_create lib srv self username custom_id sent =
           (check_created lib (srv (length sent)), sent @ [req])) \<and>
    (\<exists>req. APIAdminClient_add_or_update lib srv self target_url api_id name public_dns path strip_path preserve_host sent =
           (check_created_or_ok lib (srv (length sent)), sent @ [req])) \<and>
    (\<exists>req. APIPluginConfigurationAdminClient_create_or_update lib srv selfp plugin_name plugin_configuration_id enabled consumer field_map sent =
           (check_created_or_ok lib (srv (length sent)), sent @ [req])) \<and>
    (\<exists>req. BasicAuthAdminClient_create_or_update lib srv selfc basic_auth_id username password sent =
           (check_created_or_ok lib (srv (length sent)), sent @ [req])) \<and>
    (\<exists>req. KeyAuthAdminClient_create_or_update lib srv selfc key_auth_id key sent =
           (check_created_or_ok lib (srv (length sent)), sent @ [req])) \<and>
    (\<exists>req. OAuth2AdminClient_create_or_update lib srv selfc oauth2_id name redirect_uri client_id client_secret sent =
           (check_created_or_ok lib (srv (length sent)), sent @ [req])) \<and>
    (\<exists>req. ConsumerAdminClient_create_or_update lib srv self consumer username custom_id sent =
           (check_created_or_ok lib (srv (length sent)), sent @ [req])) \<and>
    (\<exists>req. APIPluginConfigurationAdminClient_update lib srv selfp plugin_name enabled consumer field_map sent =
           (check_ok lib (srv (length sent)), sent @ [req])) \<and>
    (\<exists>req. APIAdminClient_retrieve lib srv self name_or_id sent =
           (check_ok lib (srv (length sent)), sent @ [req])) \<and>
    (\<exists>req. BasicAuthAdminClient_retrieve lib srv selfc ident sent =
           (check_ok lib (srv (length sent)), sent @ [req])) \<and>
    (\<exists>req. KeyAuthAdminClient_retrieve lib srv selfc ident sent =
           (check_ok lib (srv (length sent)), sent @ [req])) \<and>
    (\<exists>req. OAuth2AdminClient_retrieve lib srv selfc ident sent =
           (check_ok lib (srv (length sent)), sent @ [req])) \<and>
    (\<exists>req. ConsumerAdminClient_retrieve lib srv self name_or_id sent =
           (check_ok lib (srv (length sent)), sent @ [req])) \<and>
    (\<exists>req. PluginAdminClient_list lib srv self sent =
           (check_ok lib (srv (length sent)), sent @ [req])) \<and>
    (\<exists>req. PluginAdminClient_retrieve_schema lib srv self plugin_name sent =
           (check_ok lib (srv (length sent)), sent @ [req])) \<and>
    ((\<exists>req. APIAdminClient_update lib srv self name_or_id target_url field_map sent =
           (check_ok lib (srv (length sent)), sent @ [req])) \<or>
      (\<exists>e. APIAdminClient_update lib srv self name_or_id target_url field_map sent = (Inl e, sent))) \<and>
    ((\<exists>req. BasicAuthAdminClient_update lib srv selfc ident field_map sent =
           (check_ok lib (srv (length sent)), sent @ [req])) \<or>
      (\<exists>e. BasicAuthAdminClient_update lib srv selfc ident field_map sent = (Inl e, sent))) \<and>
    ((\<exists>req. KeyAuthAdminClient_update lib srv selfc ident field_map sent =
           (check_ok lib (srv (length sent)), sent @ [req])) \<or>
      (\<exists>e. KeyAuthAdminClient_update lib srv selfc ident field_map sent = (Inl e, sent))) \<and>
    ((\<exists>req. OAuth2AdminClient_update lib srv selfc ident field_map sent =
           (check_ok lib (srv (length sent)), sent @ [req])) \<or>
      (\<exists>e. OAuth2AdminClient_update lib srv selfc ident field_map sent = (Inl e, sent))) \<and>
    ((\<exists>req. ConsumerAdminClient_update lib srv self name_or_id field_map sent =
           (check_ok lib (srv (length sent)), sent @ [req])) \<or>
      (\<exists>e. ConsumerAdminClient_update lib srv self name_or_id field_map sent = (Inl e, sent))) \<and>
    ((\<exists>req. APIAdminClient_list lib srv self sz offset filter_fields sent =
           (check_ok lib (srv (length sent)), sent @ [req])) \<or>
      (\<exists>e. APIAdminClient_list lib srv self sz offset filter_fields sent = (Inl e, sent))) \<and>
    ((\<exists>req. APIPluginConfigurationAdminClient_list lib srv selfp sz offset filter_fields sent =
           (check_ok lib (srv (length sent)), sent @ [req])) \<or>
      (\<exists>e. APIPluginConfigurationAdminClient_list lib srv selfp sz offset filter_fields sent = (Inl e, sent))) \<and>
    ((\<exists>req. BasicAuthAdminClient_list lib srv selfc sz offset filter_fields sent =
           (check_ok lib (srv (length sent)), sent @ [req])) \<or>
      (\<exists>e. BasicAuthAdminClient_list lib srv selfc sz offset filter_fields sent = (Inl e, sent))) \<and>
    ((\<exists>req. KeyAuthAdminClient_list lib srv selfc sz offset filter_fields sent =
           (check_ok lib (srv (length sent)), sent @ [req])) \<or>
      (\<exists>e. KeyAuthAdminClient_list lib srv selfc sz offset filter_fields sent = (Inl e, sent))) \<and>
    ((\<exists>req. OAuth2AdminClient_list lib srv selfc sz offset filter_fields sent =
           (check_ok lib (srv (length sent)), sent @ [req])) \<or>
      (\<exists>e. OAuth2AdminClient_list lib srv selfc sz offset filter_fields sent = (Inl e, sent))) \<and>
    ((\<exists>req. ConsumerAdminClient_list lib srv self sz offset filter_fields sent =
           (check_ok lib (srv (length sent)), sent @ [req])) \<or>
      (\<exists>e. ConsumerAdminClient_list lib srv self sz offset filter_fields sent = (Inl e, sent))) \<and>
    (\<exists>req. APIAdminClient_count lib srv self sent =
           (count_result (srv (length sent)), sent @ [req])) \<and>
    (\<exists>req. APIPluginConfigurationAdminClient_count lib srv selfp sent =
           (count_result (srv (length sent)), sent @ [req])) \<and>
    (\<exists>req. BasicAuthAdminClient_count lib srv selfc sent =
           (count_result (srv (length sent)), sent @ [req])) \<and>
    (\<exists>req. KeyAuthAdminClient_count lib srv selfc sent =
           (count_result (srv (length sent)), sent @ [req])) \<and>
    (\<exists>req. OAuth2AdminClient_count lib srv selfc sent =
           (count_result (srv (length sent)), sent @ [req])) \<and>
    (\<exists>req. ConsumerAdminClient_count lib srv self sent =
           (count_result (srv (length sent)), sent @ [req])))"
proof -
  have e0: "json_body r = Some (PDict kvs) \<longrightarrow>
      raise_response_error lib r cls True = construct (case cls of None \<Rightarrow> ValueErrorClass | Some c \<Rightarrow> c)
        (join '', '' (map (\<lambda>(key, value). key @ '': '' @ py_str lib value) kvs))"
    using raise_response_error_json [of r kvs lib cls] by blast
  have e1: "json_body r = Some (PDict kvs) \<and> status_code r = CONFLICT \<longrightarrow>
      check_created lib r = Inl (ConflictError (join '', '' (map (\<lambda>(key, value). key @ '': '' @ py_str lib value) kvs))) \<and>
      check_created_or_ok lib r = Inl (ConflictError (join '', '' (map (\<lambda>(key, value). key @ '': '' @ py_str lib value) kvs)))"
    using checks_conflict [of r kvs lib] by blast
  have e2: "json_body r = Some (PDict kvs) \<and> status_code r \<notin> {CREATED, CONFLICT} \<longrightarrow>
      check_created lib r = Inl (ValueError (join '', '' (map (\<lambda>(key, value). key @ '': '' @ py_str lib value) kvs)))"
    using checks_failure [of r kvs lib] by blast
  have e3: "json_body r = Some (PDict kvs) \<and> status_code r \<notin> {CREATED, OK, CONFLICT} \<longrightarrow>
      check_created_or_ok lib r = Inl (ValueError (join '', '' (map (\<lambda>(key, value). key @ '': '' @ py_str lib value) kvs)))"
    using checks_failure [of r kvs lib] by blast
  have e4: "json_body r = Some (PDict kvs) \<and> status_code r \<noteq> OK \<longrightarrow>
      check_ok lib r = Inl (ValueError (join '', '' (map (\<lambda>(key, value). key @ '': '' @ py_str lib value) kvs)))"
    using checks_failure [of r kvs lib] by blast
  have e5: "json_body r = None \<longrightarrow>
      raise_response_error lib r cls True = JSONDecodeError \<and>
      check_created lib r = Inl JSONDecodeError \<and> check_created_or_ok lib r = Inl JSONDecodeError \<and>
      check_ok lib r = Inl JSONDecodeError"
    using raise_response_error_undecodable [of r lib cls] checks_undecodable [of r lib] by blast
  have e6: "raise_response_error lib r cls False = construct (case cls of None \<Rightarrow> ValueErrorClass | Some c \<Rightarrow> c) (response_str r)"
    using raise_response_error_not_json [of lib r cls] by blast
  have e7: "status_code r \<notin> {NO_CONTENT, NOT_FOUND} \<longrightarrow>
      check_deleted message r = Inl (ValueError (message (status_code r)))"
    using check_deleted_failure [of r message] by blast
  have d: "fst (APIAdminClient_delete_body lib srv self name_or_id sent) =
      check_deleted (\<lambda>status. ''Could not delete API (status: '' @ str_nat status @ ''): '' @ name_or_id)
        (srv (length sent)) \<and>
    fst (APIPluginConfigurationAdminClient_delete_body lib srv selfp name_or_id sent) =
      check_deleted (\<lambda>status. ''Could not delete Plugin Configuration (status: '' @ str_nat status @ ''): '' @ name_or_id)
        (srv (length sent)) \<and>
    fst (BasicAuthAdminClient_delete_body lib srv selfc ident sent) =
      check_deleted (\<lambda>status. ''Could not delete Basic Auth (status: '' @ str_nat status @ ''): '' @ ident @
           '' for Consumer: '' @ self_consumer_id selfc)
        (srv (length sent)) \<and>
    fst (KeyAuthAdminClient_delete_body lib srv selfc ident sent) =
      check_deleted (\<lambda>status. ''Could not delete Key Auth (status: '' @ str_nat status @ ''): '' @ ident @
           '' for Consumer: '' @ self_consumer_id selfc)
        (srv (length sent)) \<and>
    fst (OAuth2AdminClient_delete_body lib srv selfc ident sent) =
      check_deleted (\<lambda>status. ''Could not delete OAuth2 (status: '' @ str_nat status @ ''): '' @ ident @
           '' for Consumer: '' @ self_consumer_id selfc)
        (srv (length sent)) \<and>
    fst (ConsumerAdminClient_delete_body lib srv self name_or_id sent) =
      check_deleted (\<lambda>status. ''Could not delete Consumer (status: '' @ str_nat status @ ''): '' @ name_or_id)
        (srv (length sent))"
    by (rule delete_body_results)
  have o: "(\<exists>req. APIAdminClient_add lib srv self target_url name public_dns path strip_path preserve_host sent =
           (check_created lib (srv (length sent)), sent @ [req])) \<and>
    (\<exists>req. APIPluginConfigurationAdminClient_create lib srv selfp plugin_name enabled consumer field_map sent =
           (check_created lib (srv (length sent)), sent @ [req])) \<and>
    (\<exists>req. BasicAuthAdminClient_create lib srv selfc username password sent =
           (check_created lib (srv (length sent)), sent @ [req])) \<and>
    (\<exists>req. KeyAuthAdminClient_create lib srv selfc key sent =
           (check_created lib (srv (length sent)), sent @ [req])) \<and>
    (\<exists>req. OAuth2AdminClient_create lib srv selfc name redirect_uri client_id client_secret sent =
           (check_created lib (srv (length sent)), sent @ [req])) \<and>
    (\<exists>req. ConsumerAdminClient_create lib srv self username custom_id sent =
           (check_created lib (srv (length sent)), sent @ [req])) \<and>
    (\<exists>req. APIAdminClient_add_or_update lib srv self target_url api_id name public_dns path strip_path preserve_host sent =
           (check_created_or_ok lib (srv (length sent)), sent @ [req])) \<and>
    (\<exists>req. APIPluginConfigurationAdminClient_create_or_update lib srv selfp plugin_name plugin_configuration_id enabled consumer field_map sent =
           (check_created_or_ok lib (srv (length sent)), sent @ [req])) \<and>
    (\<exists>req. BasicAuthAdminClient_create_or_update lib srv selfc basic_auth_id username password sent =
           (check_created_or_ok lib (srv (length sent)), sent @ [req])) \<and>
    (\<exists>req. KeyAuthAdminClient_create_or_update lib srv selfc key_auth_id key sent =
           (check_created_or_ok lib (srv (length sent)), sent @ [req])) \<and>
    (\<exists>req. OAuth2AdminClient_create_or_update lib srv selfc oauth2_id name redirect_uri client_id client_secret sent =
           (check_created_or_ok lib (srv (length sent)), sent @ [req])) \<and>
    (\<exists>req. ConsumerAdminClient_create_or_update lib srv self consumer username custom_id sent =
           (check_created_or_ok lib (srv (length sent)), sent @ [req])) \<and>
    (\<exists>req. APIPluginConfigurationAdminClient_update lib srv selfp plugin_name enabled consumer field_map sent =
           (check_ok lib (srv (length sent)), sent @ [req])) \<and>
    (\<exists>req. APIAdminClient_retrieve lib srv self name_or_id sent =
           (check_ok lib (srv (length sent)), sent @ [req])) \<and>
    (\<exists>req. BasicAuthAdminClient_retrieve lib srv selfc ident sent =
           (check_ok lib (srv (length sent)), sent @ [req])) \<and>
    (\<exists>req. KeyAuthAdminClient_retrieve lib srv selfc ident sent =
           (check_ok lib (srv (length sent)), sent @ [req])) \<and>
    (\<exists>req. OAuth2AdminClient_retrieve lib srv selfc ident sent =
           (check_ok lib (srv (length sent)), sent @ [req])) \<and>
    (\<exists>req. ConsumerAdminClient_retrieve lib srv self name_or_id sent =
           (check_ok lib (srv (length sent)), sent @ [req])) \<and>
    (\<exists>req. PluginAdminClient_list lib srv self sent =
           (check_ok lib (srv (length sent)), sent @ [req])) \<and>
    (\<exists>req. PluginAdminClient_retrieve_schema lib srv self plugin_name sent =
           (check_ok lib (srv (length sent)), sent @ [req])) \<and>
    ((\<exists>req. APIAdminClient_update lib srv self name_or_id target_url field_map sent =
           (check_ok lib (srv (length sent)), sent @ [req])) \<or>
      (\<exists>e. APIAdminClient_update lib srv self name_or_id target_url field_map sent = (Inl e, sent))) \<and>
    ((\<exists>req. BasicAuthAdminClient_update lib srv selfc ident field_map sent =
           (check_ok lib (srv (length sent)), sent @ [req])) \<or>
      (\<exists>e. BasicAuthAdminClient_update lib srv selfc ident field_map sent = (Inl e, sent))) \<and>
    ((\<exists>req. KeyAuthAdminClient_update lib srv selfc ident field_map sent =
           (check_ok lib (srv (length sent)), sent @ [req])) \<or>
      (\<exists>e. KeyAuthAdminClient_update lib srv selfc ident field_map sent = (Inl e, sent))) \<and>
    ((\<exists>req. OAuth2AdminClient_update lib srv selfc ident field_map sent =
           (check_ok lib (srv (length sent)), sent @ [req])) \<or>
      (\<exists>e. OAuth2AdminClient_update lib srv selfc ident field_map sent = (Inl e, sent))) \<and>
    ((\<exists>req. ConsumerAdminClient_update lib srv self name_or_id field_map sent =
           (check_ok lib (srv (length sent)), sent @ [req])) \<or>
      (\<exists>e. ConsumerAdminClient_update lib srv self name_or_id field_map sent = (Inl e, sent))) \<and>
    ((\<exists>req. APIAdminClient_list lib srv self sz offset filter_fields sent =
           (check_ok lib (srv (length sent)), sent @ [req])) \<or>
      (\<exists>e. APIAdminClient_list lib srv self sz offset filter_fields sent = (Inl e, sent))) \<and>
    ((\<exists>req. APIPluginConfigurationAdminClient_list lib srv selfp sz offset filter_fields sent =
           (check_ok lib (srv (length sent)), sent @ [req])) \<or>
      (\<exists>e. APIPluginConfigurationAdminClient_list lib srv selfp sz offset filter_fields sent = (Inl e, sent))) \<and>
    ((\<exists>req. BasicAuthAdminClient_list lib srv selfc sz offset filter_fields sent =
           (check_ok lib (srv (length sent)), sent @ [req])) \<or>
      (\<exists>e. BasicAuthAdminClient_list lib srv selfc sz offset filter_fields sent = (Inl e, sent))) \<and>
    ((\<exists>req. KeyAuthAdminClient_list lib srv selfc sz offset filter_fields sent =
           (check_ok lib (srv (length sent)), sent @ [req])) \<or>
      (\<exists>e. KeyAuthAdminClient_list lib srv selfc sz offset filter_fields sent = (Inl e, sent))) \<and>
    ((\<exists>req. OAuth2AdminClient_list lib srv selfc sz offset filter_fields sent =
           (check_ok lib (srv (length sent)), sent @ [req])) \<or>
      (\<exists>e. OAuth2AdminClient_list lib srv selfc sz offset filter_fields sent = (Inl e, sent))) \<and>
    ((\<exists>req. ConsumerAdminClient_list lib srv self sz offset filter_fields sent =
           (check_ok lib (srv (length sent)), sent @ [req])) \<or>
      (\<exists>e. ConsumerAdminClient_list lib srv self sz offset filter_fields sent = (Inl e, sent))) \<and>
    (\<exists>req. APIAdminClient_count lib srv self sent =
           (count_result (srv (length sent)), sent @ [req])) \<and>
    (\<exists>req. APIPluginConfigurationAdminClient_count lib srv selfp sent =
           (count_result (srv (length sent)), sent @ [req])) \<and>
    (\<exists>req. BasicAuthAdminClient_count lib srv selfc sent =
           (count_result (srv (length sent)), sent @ [req])) \<and>
    (\<exists>req. KeyAuthAdminClient_count lib srv selfc sent =
           (count_result (srv (length sent)), sent @ [req])) \<and>
    (\<exists>req. OAuth2AdminClient_count lib srv selfc sent =
           (count_result (srv (length sent)), sent @ [req])) \<and>
    (\<exists>req. ConsumerAdminClient_count lib srv self sent =
           (count_result (srv (length sent)), sent @ [req]))"
    by (rule one_request_per_call)
  have f: "status_code (srv (length sent)) \<notin> {NO_CONTENT, NOT_FOUND} \<and>
    status_code (srv (Suc (length sent))) \<notin> {NO_CONTENT, NOT_FOUND} \<and>
    status_code (srv (Suc (Suc (length sent)))) \<notin> {NO_CONTENT, NOT_FOUND} \<longrightarrow>
    fst (APIAdminClient_delete lib srv self name_or_id sent) =
      Inl (ValueError (''Could not delete API (status: '' @ str_nat (status_code (srv (Suc (Suc (length sent))))) @ ''): '' @ name_or_id)) \<and>
    fst (APIPluginConfigurationAdminClient_delete lib srv selfp name_or_id sent) =
      Inl (ValueError (''Could not delete Plugin Configuration (status: '' @ str_nat (status_code (srv (Suc (Suc (length sent))))) @ ''): '' @ name_or_id)) \<and>
    fst (BasicAuthAdminClient_delete lib srv selfc ident sent) =
      Inl (ValueError (''Could not delete Basic Auth (status: '' @ str_nat (status_code (srv (Suc (Suc (length sent))))) @ ''): '' @ ident @
           '' for Consumer: '' @ self_consumer_id selfc)) \<and>
    fst (KeyAuthAdminClient_delete lib srv selfc ident sent) =
      Inl (ValueError (''Could not delete Key Auth (status: '' @ str_nat (status_code (srv (Suc (Suc (length sent))))) @ ''): '' @ ident @
           '' for Consumer: '' @ self_consumer_id selfc)) \<and>
    fst (OAuth2AdminClient_delete lib srv selfc ident sent) =
      Inl (ValueError (''Could not delete OAuth2 (status: '' @ str_nat (status_code (srv (Suc (Suc (length sent))))) @ ''): '' @ ident @
           '' for Consumer: '' @ self_consumer_id selfc)) \<and>
    fst (ConsumerAdminClient_delete lib srv self name_or_id sent) =
      Inl (ValueError (''Could not delete Consumer (status: '' @ str_nat (status_code (srv (Suc (Suc (length sent))))) @ ''): '' @ name_or_id))"
    by (intro impI, elim conjE, rule delete_failure_messages; assumption)
  show ?thesis
    by (rule conjI [OF e0], rule conjI [OF e1], rule conjI [OF e2], rule conjI [OF e3], rule conjI [OF e4], rule conjI [OF e5], rule conjI [OF e6], rule conjI [OF e7],
        rule conjI [OF d], rule conjI [OF f], rule o)
qed

theorem error_message_is_joined_json_fields_witness:
  "check_created \<lparr>resolve = (\<lambda>b u. b @ u), quote = (\<lambda>s. s), repr_container = (\<lambda>v. [])\<rparr>
     \<lparr>status_code = 409, json_body = Some (PDict [(''name'', PStr ''already exists''), (''code'', PStr ''unique'')]),
      text_body = []\<rparr> = Inl (ConflictError ''name: already exists, code: unique'')
   \<and> check_ok \<lparr>resolve = (\<lambda>b u. b @ u), quote = (\<lambda>s. s), repr_container = (\<lambda>v. [])\<rparr>
     \<lparr>status_code = 404, json_body = Some (PDict [(''message'', PStr ''Not found'')]), text_body = []\<rparr>
       = Inl (ValueError ''message: Not found'')
   \<and> check_ok \<lparr>resolve = (\<lambda>b u. b @ u), quote = (\<lambda>s. s), repr_container = (\<lambda>v. [])\<rparr> \<lparr>status_code = 502, json_body = None, text_body = ''Bad Gateway''\<rparr> = Inl JSONDecodeError
   \<and> check_deleted (\<lambda>status. ''Could not delete API (status: '' @ str_nat status @ ''): svc'')
       \<lparr>status_code = 500, json_body = Some (PDict [(''message'', PStr ''An unexpected error occurred'')]),
        text_body = []\<rparr> = Inl (ValueError ''Could not delete API (status: 500): svc'')"
proof -
  let ?lib = "\<lparr>resolve = (\<lambda>b u. b @ u), quote = (\<lambda>s. s), repr_container = (\<lambda>v. [])\<rparr>"
  let ?r1 = "\<lparr>status_code = 409, json_body = Some (PDict [(''name'', PStr ''already exists''), (''code'', PStr ''unique'')]),
      text_body = []\<rparr>"
  let ?r2 = "\<lparr>status_code = 404, json_body = Some (PDict [(''message'', PStr ''Not found'')]), text_body = []\<rparr>"
  let ?r3 = "\<lparr>status_code = 502, json_body = None, text_body = ''Bad Gateway''\<rparr>"
  let ?r4 = "\<lparr>status_code = 500, json_body = Some (PDict [(''message'', PStr ''An unexpected error occurred'')]),
        text_body = []\<rparr>"
  have "check_created ?lib ?r1 = Inl (ConflictError ''name: already exists, code: unique'')"
    using error_message_is_joined_json_fields
      [where r = ?r1 and lib = ?lib and kvs = "[(''name'', PStr ''already exists''), (''code'', PStr ''unique'')]",
        THEN conjunct2, THEN conjunct1]
    by (simp add: CONFLICT_def py_str_def)
  moreover have "check_ok ?lib ?r2 = Inl (ValueError ''message: Not found'')"
    using error_message_is_joined_json_fields
      [where r = ?r2 and lib = ?lib and kvs = "[(''message'', PStr ''Not found'')]",
        THEN conjunct2, THEN conjunct2, THEN conjunct2, THEN conjunct2, THEN conjunct1]
    by (simp add: OK_def py_str_def)
  moreover have "check_ok ?lib ?r3 = Inl JSONDecodeError"
    using error_message_is_joined_json_fields
      [where r = ?r3 and lib = ?lib and cls = None,
        THEN conjunct2, THEN conjunct2, THEN conjunct2, THEN conjunct2, THEN conjunct2, THEN conjunct1]
    by simp
  moreover have "check_deleted (\<lambda>status. ''Could not delete API (status: '' @ str_nat status @ ''): svc'') ?r4
      = Inl (ValueError ''Could not delete API (status: 500): svc'')"
    using error_message_is_joined_json_fields
      [where r = ?r4 and message = "\<lambda>status. ''Could not delete API (status: '' @ str_nat status @ ''): svc''",
        THEN conjunct2, THEN conjunct2, THEN conjunct2, THEN conjunct2, THEN conjunct2, THEN conjunct2,
        THEN conjunct2, THEN conjunct1]
    by (simp add: NO_CONTENT_def NOT_FOUND_def str_nat_500)
  ultimately show ?thesis by simp
qed

text \<open>
  C2 as stated fails: \<open>APIAdminClient.add\<close> answered with 409 and the body
  \<open>upstream unavailable\<close>, which is not JSON, does not raise a \<open>ConflictError\<close> carrying
  that text; \<open>response.json()\<close> raises and the decoding error leaves the call. Even the
  branch for \<open>is_json=False\<close> would give \<open><Response [409]>\<close>, not the text.
\<close>

theorem undecodable_body_fails_the_call:
  "fst (APIAdminClient_add \<lparr>resolve = (\<lambda>b u. b @ u), quote = (\<lambda>s. s), repr_container = (\<lambda>v. [])\<rparr>
          (\<lambda>n. \<lparr>status_code = 409, json_body = None, text_body = ''upstream unavailable''\<rparr>)
          \<lparr>api_url = ''http://kong:8001'', headers = []\<rparr> (PStr ''http://x'') (PStr ''svc'') PNone PNone (PBool False) (PBool False) [])
     = Inl JSONDecodeError
   \<and> raise_response_error \<lparr>resolve = (\<lambda>b u. b @ u), quote = (\<lambda>s. s), repr_container = (\<lambda>v. [])\<rparr>
        \<lparr>status_code = 409, json_body = None, text_body = ''upstream unavailable''\<rparr>
        (Some ConflictErrorClass) True = JSONDecodeError
   \<and> raise_response_error \<lparr>resolve = (\<lambda>b u. b @ u), quote = (\<lambda>s. s), repr_container = (\<lambda>v. [])\<rparr>
        \<lparr>status_code = 409, json_body = None, text_body = ''upstream unavailable''\<rparr>
        (Some ConflictErrorClass) False = ConflictError ''<Response [409]>''"
  by (simp add: APIAdminClient_add_def send_def check_created_def response_json_def
      raise_response_error_def construct_def response_str_def str_nat_409)

subsection \<open>Creating\<close>

lemma create_results:
  "fst (APIAdminClient_add lib srv self target_url name public_dns path strip_path preserve_host sent) = check_created lib (srv (length sent)) \<and>
    fst (APIPluginConfigurationAdminClient_create lib srv selfp plugin_name enabled consumer field_map sent) = check_created lib (srv (length sent)) \<and>
    fst (BasicAuthAdminClient_create lib srv selfc username password sent) = check_created lib (srv (length sent)) \<and>
    fst (KeyAuthAdminClient_create lib srv selfc key sent) = check_created lib (srv (length sent)) \<and>
    fst (OAuth2AdminClient_create lib srv selfc name redirect_uri client_id client_secret sent) = check_created lib (srv (length sent)) \<and>
    fst (ConsumerAdminClient_create lib srv self username custom_id sent) = check_created lib (srv (length sent)) \<and>
    fst (APIAdminClient_add_or_update lib srv self target_url api_id name public_dns path strip_path preserve_host sent) = check_created_or_ok lib (srv (length sent)) \<and>
    fst (APIPluginConfigurationAdminClient_create_or_update lib srv selfp plugin_name plugin_configuration_id enabled consumer field_map sent) = check_created_or_ok lib (srv (length sent)) \<and>
    fst (BasicAuthAdminClient_create_or_update lib srv selfc basic_auth_id username password sent) = check_created_or_ok lib (srv (length sent)) \<and>
    fst (KeyAuthAdminClient_create_or_update lib srv selfc key_auth_id key sent) = check_created_or_ok lib (srv (length sent)) \<and>
    fst (OAuth2AdminClient_create_or_update lib srv selfc oauth2_id name redirect_uri client_id client_secret sent) = check_created_or_ok lib (srv (length sent)) \<and>
    fst (ConsumerAdminClient_create_or_update lib srv self consumer username custom_id sent) = check_created_or_ok lib (srv (length sent))"
  by (intro conjI; simp add: APIAdminClient_add_def APIPluginConfigurationAdminClient_create_def BasicAuthAdminClient_create_def KeyAuthAdminClient_create_def OAuth2AdminClient_create_def ConsumerAdminClient_create_def APIAdminClient_add_or_update_def APIPluginConfigurationAdminClient_create_or_update_def BasicAuthAdminClient_create_or_update_def KeyAuthAdminClient_create_or_update_def OAuth2AdminClient_create_or_update_def ConsumerAdminClient_create_or_update_def
      send_def Let_def split_def)

lemma check_created_returns:
  "check_created lib r = Inr result \<Longrightarrow> status_code r = CREATED \<and> json_body r = Some result"
  by (simp add: check_created_def response_json_def split: option.splits if_splits)

lemma check_created_on_created:
  "status_code r = CREATED \<Longrightarrow> json_body r = Some result \<Longrightarrow> check_created lib r = Inr result"
  by (simp add: check_created_def response_json_def CREATED_def CONFLICT_def)

lemma check_created_on_conflict:
  "status_code r = CONFLICT \<Longrightarrow> json_body r = Some (PDict kvs) \<Longrightarrow>
   check_created lib r = Inl (ConflictError (join '', '' (map (\<lambda>(key, value). key @ '': '' @ py_str lib value) kvs)))"
  by (simp add: check_created_def response_json_def raise_response_error_def construct_def)

lemma check_created_on_failure:
  "status_code r \<notin> {CREATED, CONFLICT} \<Longrightarrow> json_body r = Some (PDict kvs) \<Longrightarrow>
   check_created lib r = Inl (ValueError (join '', '' (map (\<lambda>(key, value). key @ '': '' @ py_str lib value) kvs)))"
  by (simp add: check_created_def response_json_def raise_response_error_def construct_def)

lemma check_created_undecodable:
  "json_body r = None \<Longrightarrow> check_created lib r = Inl JSONDecodeError"
  by (simp add: check_created_def response_json_def)

lemma check_created_or_ok_on_success:
  "status_code r \<in> {OK, CREATED} \<Longrightarrow> json_body r = Some result \<Longrightarrow> check_created_or_ok lib r = Inr result"
  by (auto simp add: check_created_or_ok_def response_json_def CREATED_def CONFLICT_def OK_def)

lemma check_created_or_ok_returns:
  "check_created_or_ok lib r = Inr result \<Longrightarrow> status_code r \<in> {OK, CREATED} \<and> json_body r = Some result"
  by (auto simp add: check_created_or_ok_def response_json_def split: option.splits if_splits)

lemma py_items_not_dict: "\<forall>kvs. v \<noteq> PDict kvs \<Longrightarrow> py_items v = Inl AttributeError"
  by (cases v) simp_all

lemma checks_not_object:
  assumes "json_body r = Some v" and "\<forall>kvs. v \<noteq> PDict kvs"
  shows "status_code r \<noteq> CREATED \<longrightarrow> check_created lib r = Inl AttributeError"
    and "status_code r \<notin> {CREATED, OK} \<longrightarrow> check_created_or_ok lib r = Inl AttributeError"
  using assms(1) py_items_not_dict [OF assms(2)]
  by (simp_all add: check_created_def check_created_or_ok_def response_json_def raise_response_error_def)

text \<open>
  C6, as amended. On every client the result of \<open>create\<close> (\<open>add\<close>) is the
  classification \<open>check_created\<close> of the answer to its POST, and the result of
  \<open>create_or_update\<close> (\<open>add_or_update\<close>) is the classification \<open>check_created_or_ok\<close> of
  the answer to its PUT. \<open>check_created\<close> returns the decoded record exactly when the
  status is 201 and the body decodes; when the body decodes to a JSON object it raises
  \<open>ConflictError\<close> on 409 and \<open>ValueError\<close> on any other status. \<open>check_created_or_ok\<close>
  returns the decoded record exactly when the status is 200 or 201 and the body decodes,
  so a PUT answered with 200 succeeds. When the body is not JSON both raise the decoding
  error, a \<open>ValueError\<close>, whatever the status, also on 409; when it decodes to JSON that is
  not an object, a failure status raises \<open>AttributeError\<close>.
\<close>

theorem create_and_create_or_update_status:
  "(fst (APIAdminClient_add lib srv self target_url name public_dns path strip_path preserve_host sent) = check_created lib (srv (length sent)) \<and>
    fst (APIPluginConfigurationAdminClient_create lib srv selfp plugin_name enabled consumer field_map sent) = check_created lib (srv (length sent)) \<and>
    fst (BasicAuthAdminClient_create lib srv selfc username password sent) = check_created lib (srv (length sent)) \<and>
    fst (KeyAuthAdminClient_create lib srv selfc key sent) = check_created lib (srv (length sent)) \<and>
    fst (OAuth2AdminClient_create lib srv selfc name redirect_uri client_id client_secret sent) = check_created lib (srv (length sent)) \<and>
    fst (ConsumerAdminClient_create lib srv self username custom_id sent) = check_created lib (srv (length sent)) \<and>
    fst (APIAdminClient_add_or_update lib srv self target_url api_id name public_dns path strip_path preserve_host sent) = check_created_or_ok lib (srv (length sent)) \<and>
    fst (APIPluginConfigurationAdminClient_create_or_update lib srv selfp plugin_name plugin_configuration_id enabled consumer field_map sent) = check_created_or_ok lib (srv (length sent)) \<and>
    fst (BasicAuthAdminClient_create_or_update lib srv selfc basic_auth_id username password sent) = check_created_or_ok lib (srv (length sent)) \<and>
    fst (KeyAuthAdminClient_create_or_update lib srv selfc key_auth_id key sent) = check_created_or_ok lib (srv (length sent)) \<and>
    fst (OAuth2AdminClient_create_or_update lib srv selfc oauth2_id name redirect_uri client_id client_secret sent) = check_created_or_ok lib (srv (length sent)) \<and>
    fst (ConsumerAdminClient_create_or_update lib srv self consumer username custom_id sent) = check_created_or_ok lib (srv (length sent)))
   \<and> (check_created lib r = Inr result \<longrightarrow> status_code r = CREATED \<and> json_body r = Some result)
   \<and> (status_code r = CREATED \<and> json_body r = Some result \<longrightarrow> check_created lib r = Inr result)
   \<and> (status_code r = CONFLICT \<and> json_body r = Some (PDict kvs) \<longrightarrow>
      check_created lib r = Inl (ConflictError (join '', '' (map (\<lambda>(key, value). key @ '': '' @ py_str lib value) kvs))))
   \<and> (status_code r \<notin> {CREATED, CONFLICT} \<and> json_body r = Some (PDict kvs) \<longrightarrow>
      check_created lib r = Inl (ValueError (join '', '' (map (\<lambda>(key, value). key @ '': '' @ py_str lib value) kvs))))
   \<and> (status_code r \<notin> {CREATED, CONFLICT} \<and> json_body r = None \<longrightarrow>
      (\<exists>e. check_created lib r = Inl e \<and> is_ValueError e))
   \<and> (status_code r \<in> {OK, CREATED} \<and> json_body r = Some result \<longrightarrow> check_created_or_ok lib r = Inr result)
   \<and> (check_created_or_ok lib r = Inr result \<longrightarrow> status_code r \<in> {OK, CREATED} \<and> json_body r = Some result)
   \<and> (json_body r = None \<longrightarrow>
      check_created lib r = Inl JSONDecodeError \<and> check_created_or_ok lib r = Inl JSONDecodeError)
   \<and> (json_body r = Some v \<and> (\<forall>kvs. v \<noteq> PDict kvs) \<and> status_code r \<noteq> CREATED \<longrightarrow>
      check_created lib r = Inl AttributeError)
   \<and> (json_body r = Some v \<and> (\<forall>kvs. v \<noteq> PDict kvs) \<and> status_code r \<notin> {CREATED, OK} \<longrightarrow>
      check_created_or_ok lib r = Inl AttributeError)
   \<and> (status_code r = CONFLICT \<and> json_body r = Some (PDict kvs) \<longrightarrow>
      check_created_or_ok lib r = Inl (ConflictError (join '', '' (map (\<lambda>(key, value). key @ '': '' @ py_str lib value) kvs))))
   \<and> (status_code r \<notin> {CREATED, OK, CONFLICT} \<and> json_body r = Some (PDict kvs) \<longrightarrow>
      check_created_or_ok lib r = Inl (ValueError (join '', '' (map (\<lambda>(key, value). key @ '': '' @ py_str lib value) kvs))))"
proof -
  have p0: "check_created lib r = Inr result \<longrightarrow> status_code r = CREATED \<and> json_body r = Some result"
    using check_created_returns [of lib r result] by blast
  have p1: "status_code r = CREATED \<and> json_body r = Some result \<longrightarrow> check_created lib r = Inr result"
    using check_created_on_created [of r result lib] by blast
  have p2: "status_code r = CONFLICT \<and> json_body r = Some (PDict kvs) \<longrightarrow>
      check_created lib r = Inl (ConflictError (join '', '' (map (\<lambda>(key, value). key @ '': '' @ py_str lib value) kvs)))"
    using check_created_on_conflict [of r kvs lib] by blast
  have p3: "status_code r \<notin> {CREATED, CONFLICT} \<and> json_body r = Some (PDict kvs) \<longrightarrow>
      check_created lib r = Inl (ValueError (join '', '' (map (\<lambda>(key, value). key @ '': '' @ py_str lib value) kvs)))"
    using check_created_on_failure [of r kvs lib] by blast
  have p4: "status_code r \<notin> {CREATED, CONFLICT} \<and> json_body r = None \<longrightarrow>
      (\<exists>e. check_created lib r = Inl e \<and> is_ValueError e)"
    using check_created_undecodable [of r lib] by simp
  have p5: "status_code r \<in> {OK, CREATED} \<and> json_body r = Some result \<longrightarrow> check_created_or_ok lib r = Inr result"
    using check_created_or_ok_on_success [of r result lib] by blast
  have p6: "check_created_or_ok lib r = Inr result \<longrightarrow> status_code r \<in> {OK, CREATED} \<and> json_body r = Some result"
    using check_created_or_ok_returns [of lib r result] by blast
  have p7: "json_body r = None \<longrightarrow>
      check_created lib r = Inl JSONDecodeError \<and> check_created_or_ok lib r = Inl JSONDecodeError"
    using checks_undecodable [of r lib] by blast
  have p8: "json_body r = Some v \<and> (\<forall>kvs. v \<noteq> PDict kvs) \<and> status_code r \<noteq> CREATED \<longrightarrow>
      check_created lib r = Inl AttributeError"
    using checks_not_object(1) [of r v lib] by blast
  have p9: "json_body r = Some v \<and> (\<forall>kvs. v \<noteq> PDict kvs) \<and> status_code r \<notin> {CREATED, OK} \<longrightarrow>
      check_created_or_ok lib r = Inl AttributeError"
    using checks_not_object(2) [of r v lib] by blast
  have p10: "status_code r = CONFLICT \<and> json_body r = Some (PDict kvs) \<longrightarrow>
      check_created_or_ok lib r = Inl (ConflictError (join '', '' (map (\<lambda>(key, value). key @ '': '' @ py_str lib value) kvs)))"
    using checks_conflict [of r kvs lib] by blast
  have p11: "status_code r \<notin> {CREATED, OK, CONFLICT} \<and> json_body r = Some (PDict kvs) \<longrightarrow>
      check_created_or_ok lib r = Inl (ValueError (join '', '' (map (\<lambda>(key, value). key @ '': '' @ py_str lib value) kvs)))"
    using checks_failure [of r kvs lib] by blast
  have l: "fst (APIAdminClient_add lib srv self target_url name public_dns path strip_path preserve_host sent) = check_created lib (srv (length sent)) \<and>
    fst (APIPluginConfigurationAdminClient_create lib srv selfp plugin_name enabled consumer field_map sent) = check_created lib (srv (length sent)) \<and>
    fst (BasicAuthAdminClient_create lib srv selfc username password sent) = check_created lib (srv (length sent)) \<and>
    fst (KeyAuthAdminClient_create lib srv selfc key sent) = check_created lib (srv (length sent)) \<and>
    fst (OAuth2AdminClient_create lib srv selfc name redirect_uri client_id client_secret sent) = check_created lib (srv (length sent)) \<and>
    fst (ConsumerAdminClient_create lib srv self username custom_id sent) = check_created lib (srv (length sent)) \<and>
    fst (APIAdminClient_add_or_update lib srv self target_url api_id name public_dns path strip_path preserve_host sent) = check_created_or_ok lib (srv (length sent)) \<and>
    fst (APIPluginConfigurationAdminClient_create_or_update lib srv selfp plugin_name plugin_configuration_id enabled consumer field_map sent) = check_created_or_ok lib (srv (length sent)) \<and>
    fst (BasicAuthAdminClient_create_or_update lib srv selfc basic_auth_id username password sent) = check_created_or_ok lib (srv (length sent)) \<and>
    fst (KeyAuthAdminClient_create_or_update lib srv selfc key_auth_id key sent) = check_created_or_ok lib (srv (length sent)) \<and>
    fst (OAuth2AdminClient_create_or_update lib srv selfc oauth2_id name redirect_uri client_id client_secret sent) = check_created_or_ok lib (srv (length sent)) \<and>
    fst (ConsumerAdminClient_create_or_update lib srv self consumer username custom_id sent) = check_created_or_ok lib (srv (length sent))"
    by (rule create_results)
  show ?thesis
    by (rule conjI [OF l], rule conjI [OF p0], rule conjI [OF p1], rule conjI [OF p2], rule conjI [OF p3], rule conjI [OF p4], rule conjI [OF p5], rule conjI [OF p6], rule conjI [OF p7], rule conjI [OF p8], rule conjI [OF p9], rule conjI [OF p10],
        rule p11)
qed

theorem create_and_create_or_update_status_witness:
  "check_created_or_ok \<lparr>resolve = (\<lambda>b u. b @ u), quote = (\<lambda>s. s), repr_container = (\<lambda>v. [])\<rparr>
     \<lparr>status_code = 200, json_body = Some (PDict [(''id'', PStr ''a1'')]), text_body = []\<rparr>
       = Inr (PDict [(''id'', PStr ''a1'')])
   \<and> check_created \<lparr>resolve = (\<lambda>b u. b @ u), quote = (\<lambda>s. s), repr_container = (\<lambda>v. [])\<rparr>
     \<lparr>status_code = 201, json_body = Some (PDict [(''id'', PStr ''a1'')]), text_body = []\<rparr>
       = Inr (PDict [(''id'', PStr ''a1'')])
   \<and> check_created \<lparr>resolve = (\<lambda>b u. b @ u), quote = (\<lambda>s. s), repr_container = (\<lambda>v. [])\<rparr>
     \<lparr>status_code = 409, json_body = Some (PDict [(''name'', PStr ''already exists'')]), text_body = []\<rparr>
       = Inl (ConflictError ''name: already exists'')
   \<and> check_created \<lparr>resolve = (\<lambda>b u. b @ u), quote = (\<lambda>s. s), repr_container = (\<lambda>v. [])\<rparr>
     \<lparr>status_code = 200, json_body = Some (PDict [(''id'', PStr ''a1'')]), text_body = []\<rparr>
       = Inl (ValueError ''id: a1'')
   \<and> check_created \<lparr>resolve = (\<lambda>b u. b @ u), quote = (\<lambda>s. s), repr_container = (\<lambda>v. [])\<rparr> \<lparr>status_code = 409, json_body = None, text_body = []\<rparr> = Inl JSONDecodeError
   \<and> check_created \<lparr>resolve = (\<lambda>b u. b @ u), quote = (\<lambda>s. s), repr_container = (\<lambda>v. [])\<rparr> \<lparr>status_code = 500, json_body = Some (PList []), text_body = []\<rparr> = Inl AttributeError"
proof -
  let ?lib = "\<lparr>resolve = (\<lambda>b u. b @ u), quote = (\<lambda>s. s), repr_container = (\<lambda>v. [])\<rparr>"
  let ?ok = "\<lparr>status_code = 200, json_body = Some (PDict [(''id'', PStr ''a1'')]), text_body = []\<rparr>"
  let ?created = "\<lparr>status_code = 201, json_body = Some (PDict [(''id'', PStr ''a1'')]), text_body = []\<rparr>"
  let ?conflict = "\<lparr>status_code = 409, json_body = Some (PDict [(''name'', PStr ''already exists'')]), text_body = []\<rparr>"
  let ?html = "\<lparr>status_code = 409, json_body = None, text_body = []\<rparr>"
  let ?array = "\<lparr>status_code = 500, json_body = Some (PList []), text_body = []\<rparr>"
  have "check_created_or_ok ?lib ?ok = Inr (PDict [(''id'', PStr ''a1'')])"
    using create_and_create_or_update_status
      [where r = ?ok and lib = ?lib and result = "PDict [(''id'', PStr ''a1'')]" and kvs = "[(''id'', PStr ''a1'')]"
         and v = PNone, THEN conjunct2]
    by (simp add: OK_def CREATED_def CONFLICT_def)
  moreover have "check_created ?lib ?created = Inr (PDict [(''id'', PStr ''a1'')])"
    using create_and_create_or_update_status
      [where r = ?created and lib = ?lib and result = "PDict [(''id'', PStr ''a1'')]" and kvs = "[(''id'', PStr ''a1'')]"
         and v = PNone, THEN conjunct2]
    by (simp add: OK_def CREATED_def CONFLICT_def)
  moreover have "check_created ?lib ?conflict = Inl (ConflictError ''name: already exists'')"
    using create_and_create_or_update_status
      [where r = ?conflict and lib = ?lib and result = "PNone" and kvs = "[(''name'', PStr ''already exists'')]"
         and v = PNone, THEN conjunct2]
    by (simp add: OK_def CREATED_def CONFLICT_def py_str_def)
  moreover have "check_created ?lib ?ok = Inl (ValueError ''id: a1'')"
    using create_and_create_or_update_status
      [where r = ?ok and lib = ?lib and result = "PNone" and kvs = "[(''id'', PStr ''a1'')]"
         and v = PNone, THEN conjunct2]
    by (simp add: OK_def CREATED_def CONFLICT_def py_str_def)
  moreover have "check_created ?lib ?html = Inl JSONDecodeError"
    using create_and_create_or_update_status
      [where r = ?html and lib = ?lib and result = "PNone" and kvs = "[]" and v = PNone, THEN conjunct2]
    by simp
  moreover have "check_created ?lib ?array = Inl AttributeError"
    using create_and_create_or_update_status
      [where r = ?array and lib = ?lib and result = "PNone" and kvs = "[]" and v = "PList []", THEN conjunct2]
    by (simp add: OK_def CREATED_def CONFLICT_def)
  ultimately show ?thesis by simp
qed

text \<open>
  C6 as stated fails: \<open>ConsumerAdminClient.create\<close> answered with 409 and a body that is
  not JSON raises the decoding error, not \<open>ConflictError\<close>; answered with 500 and the
  JSON array \<open>[]\<close> it raises \<open>AttributeError\<close>, not the generic \<open>ValueError\<close>.
\<close>

theorem create_conflict_needs_json_object:
  "fst (ConsumerAdminClient_create \<lparr>resolve = (\<lambda>b u. b @ u), quote = (\<lambda>s. s), repr_container = (\<lambda>v. [])\<rparr>
          (\<lambda>n. \<lparr>status_code = 409, json_body = None, text_body = ''<html>409 Conflict</html>''\<rparr>)
          \<lparr>api_url = ''http://kong:8001'', headers = []\<rparr> (PStr ''alice'') PNone []) = Inl JSONDecodeError
   \<and> fst (ConsumerAdminClient_create \<lparr>resolve = (\<lambda>b u. b @ u), quote = (\<lambda>s. s), repr_container = (\<lambda>v. [])\<rparr>
          (\<lambda>n. \<lparr>status_code = 500, json_body = Some (PList []), text_body = ''[]''\<rparr>)
          \<lparr>api_url = ''http://kong:8001'', headers = []\<rparr> (PStr ''alice'') PNone []) = Inl AttributeError"
  by (simp add: ConsumerAdminClient_create_def send_def check_created_def response_json_def
      raise_response_error_def CONFLICT_def CREATED_def)

subsection \<open>Whitelists\<close>

lemma assert_dict_keys_in_accepts:
  "\<forall>key \<in> set (map fst d). key \<in> set allowed \<Longrightarrow> assert_dict_keys_in d allowed = None"
proof -
  assume "\<forall>key \<in> set (map fst d). key \<in> set allowed"
  then have "filter (\<lambda>key. key \<notin> set allowed) (map fst d) = []"
    by (simp add: filter_empty_conv)
  then show ?thesis by (simp add: assert_dict_keys_in_def)
qed

lemma assert_dict_keys_in_rejects:
  assumes "\<exists>key \<in> set (map fst d). key \<notin> set allowed"
  shows "\<exists>key. assert_dict_keys_in d allowed = Some (ValidationError key)"
proof -
  from assms have "filter (\<lambda>key. key \<notin> set allowed) (map fst d) \<noteq> []"
    by (simp add: filter_empty_conv)
  then obtain k ks where "filter (\<lambda>key. key \<notin> set allowed) (map fst d) = k # ks"
    by (cases "filter (\<lambda>key. key \<notin> set allowed) (map fst d)") auto
  then show ?thesis by (simp add: assert_dict_keys_in_def)
qed

text \<open>
  C5. For every \<open>list\<close> and every \<open>update\<close> that has a whitelist: when some key of the
  field map is outside the whitelist the call fails with the validation error and the
  log of requests is unchanged; when every key is in the whitelist the call sends its
  request (a GET for \<open>list\<close>, a PATCH for \<open>update\<close>). The \<open>update\<close> of the plugin
  configuration client and the \<open>list\<close> of the plugin client take no whitelist.
\<close>

theorem whitelist_checked_before_request:
  "((\<exists>key \<in> set (map fst filter_fields). key \<notin> set [''id'', ''name'', ''public_dns'', ''path'']) \<longrightarrow>
       (\<exists>key. APIAdminClient_list lib srv self sz offset filter_fields sent = (Inl (ValidationError key), sent))) \<and>
   ((\<forall>key \<in> set (map fst filter_fields). key \<in> set [''id'', ''name'', ''public_dns'', ''path'']) \<longrightarrow>
       (\<exists>req. snd (APIAdminClient_list lib srv self sz offset filter_fields sent) = sent @ [req] \<and> req_method req = GET)) \<and>
   ((\<exists>key \<in> set (map fst filter_fields). key \<notin> set [''id'', ''name'', ''api_id'', ''consumer_id'']) \<longrightarrow>
       (\<exists>key. APIPluginConfigurationAdminClient_list lib srv selfp sz offset filter_fields sent = (Inl (ValidationError key), sent))) \<and>
   ((\<forall>key \<in> set (map fst filter_fields). key \<in> set [''id'', ''name'', ''api_id'', ''consumer_id'']) \<longrightarrow>
       (\<exists>req. snd (APIPluginConfigurationAdminClient_list lib srv selfp sz offset filter_fields sent) = sent @ [req] \<and> req_method req = GET)) \<and>
   ((\<exists>key \<in> set (map fst filter_fields). key \<notin> set [''id'', ''username'']) \<longrightarrow>
       (\<exists>key. BasicAuthAdminClient_list lib srv selfc sz offset filter_fields sent = (Inl (ValidationError key), sent))) \<and>
   ((\<forall>key \<in> set (map fst filter_fields). key \<in> set [''id'', ''username'']) \<longrightarrow>
       (\<exists>req. snd (BasicAuthAdminClient_list lib srv selfc sz offset filter_fields sent) = sent @ [req] \<and> req_method req = GET)) \<and>
   ((\<exists>key \<in> set (map fst filter_fields). key \<notin> set [''id'', ''key'']) \<longrightarrow>
       (\<exists>key. KeyAuthAdminClient_list lib srv selfc sz offset filter_fields sent = (Inl (ValidationError key), sent))) \<and>
   ((\<forall>key \<in> set (map fst filter_fields). key \<in> set [''id'', ''key'']) \<longrightarrow>
       (\<exists>req. snd (KeyAuthAdminClient_list lib srv selfc sz offset filter_fields sent) = sent @ [req] \<and> req_method req = GET)) \<and>
   ((\<exists>key \<in> set (map fst filter_fields). key \<notin> set [''id'', ''name'', ''redirect_url'', ''client_id'']) \<longrightarrow>
       (\<exists>key. OAuth2AdminClient_list lib srv selfc sz offset filter_fields sent = (Inl (ValidationError key), sent))) \<and>
   ((\<forall>key \<in> set (map fst filter_fields). key \<in> set [''id'', ''name'', ''redirect_url'', ''client_id'']) \<longrightarrow>
       (\<exists>req. snd (OAuth2AdminClient_list lib srv selfc sz offset filter_fields sent) = sent @ [req] \<and> req_method req = GET)) \<and>
   ((\<exists>key \<in> set (map fst filter_fields). key \<notin> set [''id'', ''custom_id'', ''username'']) \<longrightarrow>
       (\<exists>key. ConsumerAdminClient_list lib srv self sz offset filter_fields sent = (Inl (ValidationError key), sent))) \<and>
   ((\<forall>key \<in> set (map fst filter_fields). key \<in> set [''id'', ''custom_id'', ''username'']) \<longrightarrow>
       (\<exists>req. snd (ConsumerAdminClient_list lib srv self sz offset filter_fields sent) = sent @ [req] \<and> req_method req = GET)) \<and>
   ((\<exists>key \<in> set (map fst field_map). key \<notin> set [''name'', ''public_dns'', ''path'', ''strip_path'', ''preserve_host'']) \<longrightarrow>
       (\<exists>key. APIAdminClient_update lib srv self name_or_id target_url field_map sent = (Inl (ValidationError key), sent))) \<and>
   ((\<forall>key \<in> set (map fst field_map). key \<in> set [''name'', ''public_dns'', ''path'', ''strip_path'', ''preserve_host'']) \<longrightarrow>
       (\<exists>req. snd (APIAdminClient_update lib srv self name_or_id target_url field_map sent) = sent @ [req] \<and> req_method req = PATCH)) \<and>
   ((\<exists>key \<in> set (map fst field_map). key \<notin> set [''username'', ''password'']) \<longrightarrow>
       (\<exists>key. BasicAuthAdminClient_update lib srv selfc ident field_map sent = (Inl (ValidationError key), sent))) \<and>
   ((\<forall>key \<in> set (map fst field_map). key \<in> set [''username'', ''password'']) \<longrightarrow>
       (\<exists>req. snd (BasicAuthAdminClient_update lib srv selfc ident field_map sent) = sent @ [req] \<and> req_method req = PATCH)) \<and>
   ((\<exists>key \<in> set (map fst field_map). key \<notin> set [''key'']) \<longrightarrow>
       (\<exists>key. KeyAuthAdminClient_update lib srv selfc ident field_map sent = (Inl (ValidationError key), sent))) \<and>
   ((\<forall>key \<in> set (map fst field_map). key \<in> set [''key'']) \<longrightarrow>
       (\<exists>req. snd (KeyAuthAdminClient_update lib srv selfc ident field_map sent) = sent @ [req] \<and> req_method req = PATCH)) \<and>
   ((\<exists>key \<in> set (map fst field_map). key \<notin> set [''name'', ''redirect_uri'', ''client_id'', ''client_secret'']) \<longrightarrow>
       (\<exists>key. OAuth2AdminClient_update lib srv selfc ident field_map sent = (Inl (ValidationError key), sent))) \<and>
   ((\<forall>key \<in> set (map fst field_map). key \<in> set [''name'', ''redirect_uri'', ''client_id'', ''client_secret'']) \<longrightarrow>
       (\<exists>req. snd (OAuth2AdminClient_update lib srv selfc ident field_map sent) = sent @ [req] \<and> req_method req = PATCH)) \<and>
   ((\<exists>key \<in> set (map fst field_map). key \<notin> set [''username'', ''custom_id'']) \<longrightarrow>
       (\<exists>key. ConsumerAdminClient_update lib srv self name_or_id field_map sent = (Inl (ValidationError key), sent))) \<and>
   ((\<forall>key \<in> set (map fst field_map). key \<in> set [''username'', ''custom_id'']) \<longrightarrow>
       (\<exists>req. snd (ConsumerAdminClient_update lib srv self name_or_id field_map sent) = sent @ [req] \<and> req_method req = PATCH))"
proof -
  have reject: "\<And>d allowed. (\<exists>key \<in> set (map fst d). key \<notin> set allowed) \<Longrightarrow>
      \<exists>key. assert_dict_keys_in d allowed = Some (ValidationError key)"
    using assert_dict_keys_in_rejects by blast
  have accept: "\<And>d allowed. (\<forall>key \<in> set (map fst d). key \<in> set allowed) \<Longrightarrow>
      assert_dict_keys_in d allowed = None"
    using assert_dict_keys_in_accepts by blast
  show ?thesis
    unfolding APIAdminClient_list_def APIPluginConfigurationAdminClient_list_def BasicAuthAdminClient_list_def KeyAuthAdminClient_list_def OAuth2AdminClient_list_def ConsumerAdminClient_list_def APIAdminClient_update_def BasicAuthAdminClient_update_def KeyAuthAdminClient_update_def OAuth2AdminClient_update_def ConsumerAdminClient_update_def
    by (intro conjI impI; (drule reject | drule accept); (erule exE)?; simp add: send_def Let_def)
qed

theorem whitelist_checked_before_request_witness:
  "APIAdminClient_list \<lparr>resolve = (\<lambda>b u. b @ u), quote = (\<lambda>s. s), repr_container = (\<lambda>v. [])\<rparr>
     (\<lambda>n. \<lparr>status_code = 200, json_body = Some (PDict []), text_body = []\<rparr>)
     \<lparr>api_url = ''http://kong:8001'', headers = []\<rparr> (PInt 10) PNone [(''colour'', PStr ''red'')] [] = (Inl (ValidationError ''colour''), [])
   \<and> length (snd (APIAdminClient_list \<lparr>resolve = (\<lambda>b u. b @ u), quote = (\<lambda>s. s), repr_container = (\<lambda>v. [])\<rparr>
     (\<lambda>n. \<lparr>status_code = 200, json_body = Some (PDict []), text_body = []\<rparr>)
     \<lparr>api_url = ''http://kong:8001'', headers = []\<rparr> (PInt 10) PNone [(''name'', PStr ''svc'')] [])) = 1"
proof -
  let ?lib = "\<lparr>resolve = (\<lambda>b u. b @ u), quote = (\<lambda>s. s), repr_container = (\<lambda>v. [])\<rparr>"
  let ?self = "\<lparr>api_url = ''http://kong:8001'', headers = []\<rparr>"
  let ?srv = "\<lambda>n::nat. \<lparr>status_code = 200, json_body = Some (PDict []), text_body = []\<rparr>"
  have "\<exists>key. APIAdminClient_list ?lib ?srv ?self (PInt 10) PNone [(''colour'', PStr ''red'')] [] =
      (Inl (ValidationError key), [])"
    using whitelist_checked_before_request
      [where filter_fields = "[(''colour'', PStr ''red'')]" and lib = ?lib and srv = ?srv and self = ?self
         and sz = "PInt 10" and offset = PNone and sent = "[]", THEN conjunct1]
    by simp
  then have a: "APIAdminClient_list ?lib ?srv ?self (PInt 10) PNone [(''colour'', PStr ''red'')] [] =
      (Inl (ValidationError ''colour''), [])"
    by (auto simp add: APIAdminClient_list_def assert_dict_keys_in_def)
  have "\<exists>req. snd (APIAdminClient_list ?lib ?srv ?self (PInt 10) PNone [(''name'', PStr ''svc'')] []) = [] @ [req]
      \<and> req_method req = GET"
    using whitelist_checked_before_request
      [where filter_fields = "[(''name'', PStr ''svc'')]" and lib = ?lib and srv = ?srv and self = ?self
         and sz = "PInt 10" and offset = PNone and sent = "[]", THEN conjunct2, THEN conjunct1]
    by simp
  then have "length (snd (APIAdminClient_list ?lib ?srv ?self (PInt 10) PNone [(''name'', PStr ''svc'')] [])) = 1"
    by auto
  with a show ?thesis by simp
qed

subsection \<open>The URL builder\<close>

lemma suffix_single: "suffix [c] u \<longleftrightarrow> u \<noteq> [] \<and> last u = c"
  by (cases u rule: rev_cases) auto

lemma path_part_no_query: "CHR ''?'' \<notin> set (url_path_part u)"
  unfolding url_path_part_def by (auto dest: set_takeWhileD)

lemma query_part_head: "url_query_part u = [] \<or> hd (url_query_part u) = CHR ''?''"
  unfolding url_query_part_def using hd_dropWhile [of "\<lambda>c. c \<noteq> CHR ''?''" u] by auto

lemma path_query_id: "url_path_part u @ url_query_part u = u"
  by (simp add: url_path_part_def url_query_part_def)

lemma path_part_append:
  assumes "CHR ''?'' \<notin> set p" and "q = [] \<or> hd q = CHR ''?''"
  shows "url_path_part (p @ q) = p" and "url_query_part (p @ q) = q"
proof -
  have all: "\<forall>c \<in> set p. c \<noteq> CHR ''?''" using assms(1) by auto
  have tq: "takeWhile (\<lambda>c. c \<noteq> CHR ''?'') q = []" and dq: "dropWhile (\<lambda>c. c \<noteq> CHR ''?'') q = q"
    using assms(2) by (cases q; auto)+
  show "url_path_part (p @ q) = p"
    unfolding url_path_part_def using takeWhile_append2 [of p "\<lambda>c. c \<noteq> CHR ''?''" q] all tq by simp
  show "url_query_part (p @ q) = q"
    unfolding url_query_part_def using dropWhile_append2 [of p "\<lambda>c. c \<noteq> CHR ''?''" q] all dq by simp
qed

lemma stripped_no_query: "CHR ''?'' \<notin> set (rev (dropWhile (\<lambda>c. c = CHR ''/'') (rev (url_path_part u))) @ ''/'')"
  using path_part_no_query [of u] by (auto dest: set_dropWhileD)

lemma ensure_trailing_slash_parts:
  "url_path_part (ensure_trailing_slash u) = rev (dropWhile (\<lambda>c. c = CHR ''/'') (rev (url_path_part u))) @ ''/''"
  "url_query_part (ensure_trailing_slash u) = url_query_part u"
  using path_part_append [OF stripped_no_query [of u] query_part_head [of u]]
  by (simp_all add: ensure_trailing_slash_def)

lemma stripped_not_slashed: "\<not> suffix ''/'' (rev (dropWhile (\<lambda>c. c = CHR ''/'') (rev p)))"
proof -
  let ?d = "dropWhile (\<lambda>c. c = CHR ''/'') (rev p)"
  have "?d = [] \<or> hd ?d \<noteq> CHR ''/''"
    using hd_dropWhile [of "\<lambda>c. c = CHR ''/''" "rev p"] by auto
  then show ?thesis
    by (auto simp add: suffix_single last_rev)
qed

lemma one_slash:
  "suffix ''/'' (rev (dropWhile (\<lambda>c. c = CHR ''/'') (rev p)) @ ''/'')"
  "\<not> suffix ''//'' (rev (dropWhile (\<lambda>c. c = CHR ''/'') (rev p)) @ ''/'')"
proof -
  show "suffix ''/'' (rev (dropWhile (\<lambda>c. c = CHR ''/'') (rev p)) @ ''/'')"
    by (simp add: suffix_single)
  have "suffix ''//'' (rev (dropWhile (\<lambda>c. c = CHR ''/'') (rev p)) @ ''/'') \<longleftrightarrow>
        suffix ''/'' (rev (dropWhile (\<lambda>c. c = CHR ''/'') (rev p)))"
    using snoc_suffix_snoc [of "''/''" "CHR ''/''" "rev (dropWhile (\<lambda>c. c = CHR ''/'') (rev p))" "CHR ''/''"]
    by simp
  then show "\<not> suffix ''//'' (rev (dropWhile (\<lambda>c. c = CHR ''/'') (rev p)) @ ''/'')"
    using stripped_not_slashed [of p] by simp
qed

lemma strip_again:
  "rev (dropWhile (\<lambda>c. c = CHR ''/'') (rev (rev (dropWhile (\<lambda>c. c = CHR ''/'') (rev p)) @ ''/''))) =
   rev (dropWhile (\<lambda>c. c = CHR ''/'') (rev p))"
  by simp

lemma ensure_trailing_slash_fixed:
  assumes "url_path_part v = rev (dropWhile (\<lambda>c. c = CHR ''/'') (rev p)) @ ''/''"
  shows "ensure_trailing_slash v = v"
proof -
  have "ensure_trailing_slash v = url_path_part v @ url_query_part v"
    unfolding ensure_trailing_slash_def assms strip_again by simp
  then show ?thesis by (simp add: path_query_id)
qed

lemma ensure_trailing_slash_idem: "ensure_trailing_slash (ensure_trailing_slash u) = ensure_trailing_slash u"
  by (rule ensure_trailing_slash_fixed) (rule ensure_trailing_slash_parts)

lemma add_url_params_none: "add_url_params lib url [] = url"
  by (simp add: add_url_params_def)

lemma path_part_extend_query:
  assumes "CHR ''?'' \<in> set v"
  shows "url_path_part (v @ w) = url_path_part v"
  unfolding url_path_part_def using takeWhile_append1 [of "CHR ''?''" v "\<lambda>c. c \<noteq> CHR ''?''" w] assms by simp

lemma path_part_start_query:
  assumes "CHR ''?'' \<notin> set v"
  shows "url_path_part (v @ ''?'' @ w) = url_path_part v"
proof -
  have "url_path_part (v @ (''?'' @ w)) = v"
    by (rule path_part_append(1)) (use assms in simp_all)
  moreover have "url_path_part v = v"
    unfolding url_path_part_def using assms by (auto simp add: takeWhile_eq_all_conv)
  ultimately show ?thesis by simp
qed

lemma add_url_params_path: "url_path_part (add_url_params lib v params) = url_path_part v"
  using path_part_extend_query [of v] path_part_start_query [of v]
  by (simp add: add_url_params_def Let_def)

lemma get_url_path:
  "url_path_part (get_url lib self path query_params) =
     rev (dropWhile (\<lambda>c. c = CHR ''/'')
       (rev (url_path_part (urljoin lib (api_url self) (join ''/'' path))))) @ ''/''"
  by (simp add: get_url_def add_url_params_path ensure_trailing_slash_parts)

lemma get_url_rebuild:
  "get_url lib (self\<lparr>api_url := get_url lib self path query_params\<rparr>) [] [] = get_url lib self path query_params"
  using ensure_trailing_slash_fixed [OF get_url_path [of lib self path query_params]]
  by (simp add: get_url_def [of lib "self\<lparr>api_url := get_url lib self path query_params\<rparr>"] urljoin_def add_url_params_none)

text \<open>
  C8. For every base URL, every sequence of path segments and every set of query
  parameters, the URL built splits into the part before the query string and the query
  string (empty, or starting with \<open>?\<close>), and the part before the query string ends in one
  slash and not in two. Building again from the output, as the base URL with no further
  segment and no parameter, returns the output itself, and ensuring the slash twice is
  the same as ensuring it once.
\<close>

theorem get_url_trailing_slash:
  "suffix ''/'' (url_path_part (get_url lib self path query_params))
   \<and> \<not> suffix ''//'' (url_path_part (get_url lib self path query_params))
   \<and> url_path_part (get_url lib self path query_params) @ url_query_part (get_url lib self path query_params)
       = get_url lib self path query_params
   \<and> (url_query_part (get_url lib self path query_params) = [] \<or>
      hd (url_query_part (get_url lib self path query_params)) = CHR ''?'')
   \<and> get_url lib (self\<lparr>api_url := get_url lib self path query_params\<rparr>) [] []
       = get_url lib self path query_params
   \<and> ensure_trailing_slash (ensure_trailing_slash url) = ensure_trailing_slash url"
proof -
  have "suffix ''/'' (url_path_part (get_url lib self path query_params))"
    unfolding get_url_path by (rule one_slash)
  moreover have "\<not> suffix ''//'' (url_path_part (get_url lib self path query_params))"
    unfolding get_url_path by (rule one_slash)
  ultimately show ?thesis
    using path_query_id [of "get_url lib self path query_params"]
      query_part_head [of "get_url lib self path query_params"]
      get_url_rebuild [of lib self path query_params] ensure_trailing_slash_idem [of url]
    by blast
qed

theorem get_url_trailing_slash_witness:
  "get_url \<lparr>resolve = (\<lambda>b u. b @ ''/'' @ u), quote = (\<lambda>s. s), repr_container = (\<lambda>v. [])\<rparr> \<lparr>api_url = ''http://kong:8001'', headers = []\<rparr> [''apis''] [(''size'', PInt 10), (''name'', PStr ''svc'')]
     = ''http://kong:8001/apis/?size=10&name=svc''
   \<and> suffix ''/'' (url_path_part ''http://kong:8001/apis/?size=10&name=svc'')
   \<and> \<not> suffix ''//'' (url_path_part ''http://kong:8001/apis/?size=10&name=svc'')
   \<and> get_url \<lparr>resolve = (\<lambda>b u. b @ ''/'' @ u), quote = (\<lambda>s. s), repr_container = (\<lambda>v. [])\<rparr> \<lparr>api_url = ''http://kong:8001/apis/?size=10&name=svc'', headers = []\<rparr> [] []
     = ''http://kong:8001/apis/?size=10&name=svc''"
proof -
  let ?lib = "\<lparr>resolve = (\<lambda>b u. b @ ''/'' @ u), quote = (\<lambda>s. s), repr_container = (\<lambda>v. [])\<rparr>"
  let ?self = "\<lparr>api_url = ''http://kong:8001'', headers = []\<rparr>"
  have built: "get_url ?lib ?self [''apis''] [(''size'', PInt 10), (''name'', PStr ''svc'')]
      = ''http://kong:8001/apis/?size=10&name=svc''"
    by code_simp
  show ?thesis
    using get_url_trailing_slash [of ?lib ?self "[''apis'']" "[(''size'', PInt 10), (''name'', PStr ''svc'')]" "[]"]
    unfolding built by simp
qed

end
